theory Spec2Isabelle
  imports Main "HOL-Library.Sublist"
begin

section \<open>Python values and exceptions\<close>

text \<open>
  \<^verbatim>\<open>grafanaapi.py\<close> works on what \<^verbatim>\<open>response.json()\<close> returns: Python objects
  built from \<^verbatim>\<open>None\<close>, booleans, integers, strings, lists and dictionaries. A dictionary
  is the list of its items in insertion order; its keys are pairwise different. A string is
  a list of characters. Floating-point numbers are left out of the model.

  Every exception the code can raise is a value of \<open>py_error\<close>, and a computation that
  may raise has a result of type \<open>py_error + 'a\<close> with \<open>Inl\<close> for the exception.
\<close>

datatype py_error =
  AssertionError | KeyError | TypeError | IndexError | AttributeError | ValueError
  | RecursionError | RequestException

datatype pyval =
  PNone | PBool bool | PInt int | PStr string
  | PList "pyval list" | PDict "(pyval \<times> pyval) list"

definition and_then :: "'e + 'a \<Rightarrow> ('a \<Rightarrow> 'e + 'b) \<Rightarrow> 'e + 'b" where
  "and_then m f = (case m of Inl e \<Rightarrow> Inl e | Inr x \<Rightarrow> f x)"

text \<open>Truth value testing (\<^verbatim>\<open>if x:\<close>, \<^verbatim>\<open>not x\<close>).\<close>

fun truthy :: "pyval \<Rightarrow> bool" where
  "truthy PNone = False"
| "truthy (PBool b) = b"
| "truthy (PInt i) = (i \<noteq> 0)"
| "truthy (PStr s) = (s \<noteq> [])"
| "truthy (PList xs) = (xs \<noteq> [])"
| "truthy (PDict kvs) = (kvs \<noteq> [])"

text \<open>\<^verbatim>\<open>len(x)\<close>: only strings, lists and dictionaries have a length.\<close>

fun py_len :: "pyval \<Rightarrow> py_error + nat" where
  "py_len (PStr s) = Inr (length s)"
| "py_len (PList xs) = Inr (length xs)"
| "py_len (PDict kvs) = Inr (length kvs)"
| "py_len _ = Inl TypeError"

text \<open>
  \<^verbatim>\<open>x[key]\<close> for a string \<^verbatim>\<open>key\<close>: a dictionary looks the key up and raises
  \<^verbatim>\<open>KeyError\<close> when it is missing; a list or a string wants an integer index and
  every other value is not subscriptable, both a \<^verbatim>\<open>TypeError\<close>.
\<close>

fun py_getitem :: "pyval \<Rightarrow> string \<Rightarrow> py_error + pyval" where
  "py_getitem (PDict kvs) key =
     (case map_of kvs (PStr key) of None \<Rightarrow> Inl KeyError | Some v \<Rightarrow> Inr v)"
| "py_getitem _ key = Inl TypeError"

text \<open>\<^verbatim>\<open>x.get(key)\<close>: a method of dictionaries only; a missing key gives \<^verbatim>\<open>None\<close>.\<close>

fun py_get :: "pyval \<Rightarrow> string \<Rightarrow> py_error + pyval" where
  "py_get (PDict kvs) key =
     Inr (case map_of kvs (PStr key) of None \<Rightarrow> PNone | Some v \<Rightarrow> v)"
| "py_get _ key = Inl AttributeError"

text \<open>\<^verbatim>\<open>x.keys()\<close>: a method of dictionaries only.\<close>

fun py_keys :: "pyval \<Rightarrow> py_error + pyval list" where
  "py_keys (PDict kvs) = Inr (map fst kvs)"
| "py_keys _ = Inl AttributeError"

text \<open>\<^verbatim>\<open>for x in v\<close>: a list yields its elements, a dictionary its keys, a string its
  characters as one-character strings; nothing else is iterable.\<close>

fun py_iter :: "pyval \<Rightarrow> py_error + pyval list" where
  "py_iter (PList xs) = Inr xs"
| "py_iter (PDict kvs) = Inr (map fst kvs)"
| "py_iter (PStr s) = Inr (map (\<lambda>c. PStr [c]) s)"
| "py_iter _ = Inl TypeError"

section \<open>Python string methods\<close>

text \<open>\<^verbatim>\<open>s.find(sub)\<close>: the index of the first occurrence of \<^verbatim>\<open>sub\<close> in \<^verbatim>\<open>s\<close>,
  \<open>None\<close> for Python's \<^verbatim>\<open>-1\<close>; \<^verbatim>\<open>s.rfind(sub)\<close>: the index of the last one.\<close>

fun py_find :: "string \<Rightarrow> string \<Rightarrow> nat option" where
  "py_find sub [] = (if sub = [] then Some 0 else None)"
| "py_find sub (c # s) =
     (if prefix sub (c # s) then Some 0 else map_option Suc (py_find sub s))"

fun py_rfind :: "string \<Rightarrow> string \<Rightarrow> nat option" where
  "py_rfind sub [] = (if sub = [] then Some 0 else None)"
| "py_rfind sub (c # s) =
     (case py_rfind sub s of
        Some i \<Rightarrow> Some (Suc i)
      | None \<Rightarrow> if prefix sub (c # s) then Some 0 else None)"

text \<open>\<^verbatim>\<open>sub in s\<close> for two strings.\<close>

definition str_contains :: "string \<Rightarrow> string \<Rightarrow> bool" where
  "str_contains sub s = (py_find sub s \<noteq> None)"

text \<open>
  \<^verbatim>\<open>s.split(sep)\<close>. Python raises \<^verbatim>\<open>ValueError\<close> for an empty separator; every call
  in \<^verbatim>\<open>grafanaapi.py\<close> passes a literal, non-empty one, and the model returns \<open>[s]\<close>
  for the empty one.
\<close>

function py_split :: "string \<Rightarrow> string \<Rightarrow> string list" where
  "py_split sep s =
     (case py_find sep s of
        None \<Rightarrow> [s]
      | Some i \<Rightarrow>
          if sep = [] then [s]
          else take i s # py_split sep (drop (i + length sep) s))"
  by pat_completeness auto
termination
proof (relation "measure (\<lambda>(sep, s). length s)")
  show "wf (measure (\<lambda>(sep :: string, s :: string). length s))" by simp
next
  fix sep s :: string and i
  assume "py_find sep s = Some i" and "sep \<noteq> []"
  then have "s \<noteq> []" and "0 < length sep" by (cases s; simp)+
  then show "((sep, drop (i + length sep) s), (sep, s)) \<in> measure (\<lambda>(sep, s). length s)"
    by (cases s) auto
qed

text \<open>\<^verbatim>\<open>s.split(sep, 1)\<close> and \<^verbatim>\<open>s.rsplit(sep, 1)\<close>: at most one cut, at the first
  and at the last occurrence of the separator.\<close>

definition py_split1 :: "string \<Rightarrow> string \<Rightarrow> string list" where
  "py_split1 sep s =
     (case py_find sep s of
        None \<Rightarrow> [s]
      | Some i \<Rightarrow> [take i s, drop (i + length sep) s])"

definition py_rsplit1 :: "string \<Rightarrow> string \<Rightarrow> string list" where
  "py_rsplit1 sep s =
     (case py_rfind sep s of
        None \<Rightarrow> [s]
      | Some i \<Rightarrow> [take i s, drop (i + length sep) s])"

text \<open>\<^verbatim>\<open>s.replace(old, new)\<close>: the occurrences of \<^verbatim>\<open>old\<close> are found from the left and
  do not overlap. For an empty \<^verbatim>\<open>old\<close> Python puts \<^verbatim>\<open>new\<close> before every character and
  at the end.\<close>

function py_replace :: "string \<Rightarrow> string \<Rightarrow> string \<Rightarrow> string" where
  "py_replace old new s =
     (if old = [] then new @ concat (map (\<lambda>c. c # new) s)
      else case py_find old s of
             None \<Rightarrow> s
           | Some i \<Rightarrow> take i s @ new @ py_replace old new (drop (i + length old) s))"
  by pat_completeness auto
termination
proof (relation "measure (\<lambda>(old, new, s). length s)")
  show "wf (measure (\<lambda>(old :: string, new :: string, s :: string). length s))" by simp
next
  fix old new s :: string and i
  assume "old \<noteq> []" and "py_find old s = Some i"
  then have "s \<noteq> []" and "0 < length old" by (cases s; simp)+
  then show "((old, new, drop (i + length old) s), (old, new, s))
      \<in> measure (\<lambda>(old, new, s). length s)"
    by (cases s) auto
qed

text \<open>\<^verbatim>\<open>xs[i]\<close> on a list: \<^verbatim>\<open>IndexError\<close> out of range.\<close>

definition py_index :: "'a list \<Rightarrow> nat \<Rightarrow> py_error + 'a" where
  "py_index xs i = (if i < length xs then Inr (xs ! i) else Inl IndexError)"

text \<open>The same methods called on an arbitrary value: only a string has them.\<close>

fun str_split :: "pyval \<Rightarrow> string \<Rightarrow> py_error + string list" where
  "str_split (PStr s) sep = Inr (py_split sep s)"
| "str_split _ sep = Inl AttributeError"

fun str_replace :: "pyval \<Rightarrow> string \<Rightarrow> string \<Rightarrow> py_error + pyval" where
  "str_replace (PStr s) old new = Inr (PStr (py_replace old new s))"
| "str_replace _ old new = Inl AttributeError"

text \<open>
  \<^verbatim>\<open>key in x\<close> for a string \<^verbatim>\<open>key\<close>: a key of the dictionary, an element of the list,
  a substring of the string; a \<^verbatim>\<open>TypeError\<close> for every other value.
\<close>

fun py_contains :: "string \<Rightarrow> pyval \<Rightarrow> py_error + bool" where
  "py_contains key (PDict kvs) = Inr (PStr key \<in> set (map fst kvs))"
| "py_contains key (PList xs) = Inr (PStr key \<in> set xs)"
| "py_contains key (PStr s) = Inr (str_contains key s)"
| "py_contains key _ = Inl TypeError"

section \<open>The HTTP client\<close>

text \<open>
  \<^verbatim>\<open>requests.get\<close> is the outside world: a function from the URL to a response, or to
  the exception the library raises. Of a response the code reads \<^verbatim>\<open>response.json()\<close>
  only, which raises \<^verbatim>\<open>ValueError\<close> on a body that is not JSON. \<^verbatim>\<open>check_response\<close> is
  inherited from \<^verbatim>\<open>ApiBase\<close>, whose code is not part of \<^verbatim>\<open>grafanaapi.py\<close>; it is a
  parameter: \<open>None\<close> when it returns, the exception when it raises.
  \<open>diff_message\<close> stands for the library calls that build the debug messages of
  \<^verbatim>\<open>compare_structure\<close>; it is described there.

  Every operation threads the list of the URLs requested so far.
\<close>

record response =
  status_code :: int
  json :: "py_error + pyval"

record api =
  server :: string
  requests_get :: "string \<Rightarrow> py_error + response"
  check_response :: "response \<Rightarrow> py_error option"
  diff_message :: "pyval \<Rightarrow> pyval \<Rightarrow> py_error option"

definition http_get ::
  "api \<Rightarrow> string \<Rightarrow> string list \<Rightarrow> (py_error + response) \<times> string list" where
  "http_get self url log = (requests_get self url, log @ [url])"

definition checked_json :: "api \<Rightarrow> response \<Rightarrow> py_error + pyval" where
  "checked_json self r =
     (case check_response self r of Some e \<Rightarrow> Inl e | None \<Rightarrow> json r)"

section \<open>get_dashboards and get_dashboard\<close>

text \<open>The list comprehension of \<^verbatim>\<open>get_dashboards\<close>: the condition is evaluated first,
  the element expression only for the entries that pass.\<close>

fun dashboard_slugs :: "pyval list \<Rightarrow> py_error + string list" where
  "dashboard_slugs [] = Inr []"
| "dashboard_slugs (dashboard # rest) =
     and_then (py_getitem dashboard ''type'') (\<lambda>ty.
       if ty = PStr ''dash-db'' then
         and_then (py_getitem dashboard ''uri'') (\<lambda>uri.
         and_then (str_split uri ''/'') (\<lambda>parts.
         and_then (py_index parts 1) (\<lambda>slug.
         and_then (dashboard_slugs rest) (\<lambda>slugs. Inr (slug # slugs)))))
       else dashboard_slugs rest)"

definition get_dashboards ::
  "api \<Rightarrow> string list \<Rightarrow> (py_error + string list) \<times> string list" where
  "get_dashboards self log =
     (let pattern = ''search'';
          (response, log') = http_get self (server self @ pattern) log
      in (and_then response (\<lambda>r.
          and_then (checked_json self r) (\<lambda>body.
          and_then (py_iter body) dashboard_slugs)), log'))"

definition get_dashboard ::
  "api \<Rightarrow> string \<Rightarrow> string list \<Rightarrow> (py_error + pyval) \<times> string list" where
  "get_dashboard self slug log =
     (let pattern = ''dashboards/db/'' @ slug;
          (response, log') = http_get self (server self @ pattern) log
      in (and_then response (checked_json self), log'))"

section \<open>get_panel\<close>

text \<open>\<^verbatim>\<open>assert cond\<close>.\<close>

definition py_assert :: "bool \<Rightarrow> py_error + unit" where
  "py_assert cond = (if cond then Inr () else Inl AssertionError)"

text \<open>A list comprehension \<^verbatim>\<open>[x for x in xs if cond(x)]\<close> whose condition may raise.\<close>

fun filter_raising :: "('a \<Rightarrow> py_error + bool) \<Rightarrow> 'a list \<Rightarrow> py_error + 'a list" where
  "filter_raising cond [] = Inr []"
| "filter_raising cond (x # xs) =
     and_then (cond x) (\<lambda>keep.
     and_then (filter_raising cond xs) (\<lambda>ys. Inr (if keep then x # ys else ys)))"

text \<open>The three conditions of the comprehensions of \<^verbatim>\<open>get_panel\<close>; \<^verbatim>\<open>and\<close> evaluates
  its right operand only when the left one is true. The titles and the type asked for are
  strings, and a value equals a string only when it is that string.\<close>

definition row_matches :: "string \<Rightarrow> pyval \<Rightarrow> py_error + bool" where
  "row_matches row_title row =
     and_then (py_contains ''title'' row) (\<lambda>has_title.
       if has_title then
         and_then (py_getitem row ''title'') (\<lambda>title. Inr (title = PStr row_title))
       else Inr False)"

definition panel_matches :: "string \<Rightarrow> pyval \<Rightarrow> py_error + bool" where
  "panel_matches panel_title panel =
     and_then (py_contains ''title'' panel) (\<lambda>has_title.
       if has_title then
         and_then (py_getitem panel ''title'') (\<lambda>title. Inr (title = PStr panel_title))
       else Inr False)"

definition panel_matches_type :: "string \<Rightarrow> string \<Rightarrow> pyval \<Rightarrow> py_error + bool" where
  "panel_matches_type panel_title panel_type panel =
     and_then (py_contains ''title'' panel) (\<lambda>has_title.
       if has_title then
         and_then (py_getitem panel ''title'') (\<lambda>title.
           if title = PStr panel_title then
             and_then (py_getitem panel ''type'') (\<lambda>ty. Inr (ty = PStr panel_type))
           else Inr False)
       else Inr False)"

text \<open>Lines 73 to 82. \<^verbatim>\<open>panel_type\<close> defaults to \<^verbatim>\<open>None\<close>; \<^verbatim>\<open>if panel_type:\<close> is false
  for \<^verbatim>\<open>None\<close> and for the empty string.\<close>

definition found_panels ::
  "string \<Rightarrow> string option \<Rightarrow> pyval list \<Rightarrow> py_error + pyval list" where
  "found_panels panel_title panel_type panels =
     (case panel_type of
        None \<Rightarrow> filter_raising (panel_matches panel_title) panels
      | Some ty \<Rightarrow>
          if ty \<noteq> [] then filter_raising (panel_matches_type panel_title ty) panels
          else filter_raising (panel_matches panel_title) panels)"

text \<open>The body of \<^verbatim>\<open>get_panel\<close> from line 65 on, once the layout is there.\<close>

definition panel_of_layout ::
  "string \<Rightarrow> string \<Rightarrow> string option \<Rightarrow> pyval \<Rightarrow> py_error + pyval" where
  "panel_of_layout panel_title row_title panel_type layout =
     and_then (py_len layout) (\<lambda>n.
     and_then (py_assert (0 < n)) (\<lambda>_.
     and_then (py_getitem layout ''dashboard'') (\<lambda>dashboard.
     and_then (py_getitem dashboard ''rows'') (\<lambda>dashboard_rows.
     and_then (py_iter dashboard_rows) (\<lambda>rows.
     and_then (filter_raising (row_matches row_title) rows) (\<lambda>found_rows.
     and_then (py_assert (length found_rows = 1)) (\<lambda>_.
     and_then (py_getitem (hd found_rows) ''panels'') (\<lambda>panels.
     and_then (py_iter panels) (\<lambda>panels.
     and_then (found_panels panel_title panel_type panels) (\<lambda>found_panels.
     and_then (py_assert (length found_panels = 1)) (\<lambda>_.
     Inr (hd found_panels))))))))))))"

definition get_panel ::
  "api \<Rightarrow> string \<Rightarrow> string \<Rightarrow> string \<Rightarrow> string option \<Rightarrow> string list
     \<Rightarrow> (py_error + pyval) \<times> string list" where
  "get_panel self panel_title row_title dashboard panel_type log =
     (let (layout, log') = get_dashboard self dashboard log
      in (and_then layout (panel_of_layout panel_title row_title panel_type), log'))"

section \<open>get_panel_chart_targets\<close>

text \<open>The calls of the logger are left out; an argument of such a call whose evaluation
  can raise is kept.\<close>

text \<open>Lines 103 to 109: the templates of the visible targets.\<close>

fun visible_targets :: "pyval list \<Rightarrow> py_error + pyval list" where
  "visible_targets [] = Inr []"
| "visible_targets (target # rest) =
     and_then (py_contains ''hide'' target) (\<lambda>has_hide.
     and_then (if has_hide
               then and_then (py_getitem target ''hide'') (\<lambda>hide. Inr (\<not> truthy hide))
               else Inr True) (\<lambda>visible.
       if visible then
         and_then (py_get target ''targetFull'') (\<lambda>full.
         and_then (if truthy full then py_getitem target ''targetFull''
                   else py_getitem target ''target'') (\<lambda>template.
         and_then (visible_targets rest) (\<lambda>targets. Inr (template # targets))))
       else visible_targets rest))"

text \<open>Lines 112 to 127: the three placeholders, one after the other.\<close>

definition substitute :: "string \<Rightarrow> string \<Rightarrow> string \<Rightarrow> pyval \<Rightarrow> py_error + pyval" where
  "substitute host_name cluster_identifier volume_name target =
     and_then (py_contains ''$cluster_id'' target) (\<lambda>has_cluster.
     and_then (if has_cluster then str_replace target ''$cluster_id'' cluster_identifier
               else Inr target) (\<lambda>target.
     and_then (py_contains ''$volume_name'' target) (\<lambda>has_volume.
     and_then (if has_volume then str_replace target ''$volume_name'' volume_name
               else Inr target) (\<lambda>target.
     and_then (py_contains ''$host_name'' target) (\<lambda>has_host.
       if has_host
       then str_replace target ''$host_name'' (py_replace ''.'' ''_'' host_name)
       else Inr target)))))"

text \<open>Lines 132 to 136: \<^verbatim>\<open>rsplit("(", 1)[1]\<close> raises when there is no parenthesis and
  the piece is then left as it is; \<^verbatim>\<open>split(")", 1)[0]\<close> always exists.\<close>

definition strip_call :: "string \<Rightarrow> string" where
  "strip_call t =
     (let t = (case py_index (py_rsplit1 ''('' t) 1 of Inr t' \<Rightarrow> t' | Inl e \<Rightarrow> t)
      in hd (py_split1 '')'' t))"

text \<open>Lines 137 to 140: unpacking into two names raises unless \<^verbatim>\<open>rsplit\<close> gave two
  parts.\<close>

definition split_options :: "string \<Rightarrow> string \<times> string option" where
  "split_options t =
     (case py_rsplit1 ''.{'' t of
        [t', target_options] \<Rightarrow> (t', Some target_options)
      | _ \<Rightarrow> (t, None))"

text \<open>Lines 132 to 151: what one piece of a split target adds to \<^verbatim>\<open>target_output\<close>.\<close>

definition piece_targets :: "string \<Rightarrow> string list" where
  "piece_targets piece =
     (let (t, target_options) = split_options (strip_call piece)
      in case target_options of
           Some options \<Rightarrow>
             if options \<noteq> []
             then map (\<lambda>x. t @ ''.'' @ hd (py_split1 ''}'' x)) (py_split '','' options)
             else if prefix ''tendrl.'' t then [t] else []
         | None \<Rightarrow> if prefix ''tendrl.'' t then [t] else [])"

fun target_output :: "string list \<Rightarrow> string list" where
  "target_output [] = []"
| "target_output (t # rest) = piece_targets t @ target_output rest"

text \<open>One round of the loop of line 111.\<close>

definition process_target ::
  "string \<Rightarrow> string \<Rightarrow> string \<Rightarrow> pyval \<Rightarrow> py_error + string list" where
  "process_target host_name cluster_identifier volume_name target =
     and_then (substitute host_name cluster_identifier volume_name target) (\<lambda>target.
     and_then (str_split target '', '') (\<lambda>targets_split.
     Inr (target_output targets_split)))"

fun output_loop ::
  "string \<Rightarrow> string \<Rightarrow> string \<Rightarrow> pyval list \<Rightarrow> py_error + string list list" where
  "output_loop host_name cluster_identifier volume_name [] = Inr []"
| "output_loop host_name cluster_identifier volume_name (target # rest) =
     and_then (process_target host_name cluster_identifier volume_name target) (\<lambda>out.
     and_then (output_loop host_name cluster_identifier volume_name rest) (\<lambda>outs.
     Inr (out # outs)))"

text \<open>The whole method; \<^verbatim>\<open>panel["title"]\<close> of line 154 is evaluated for the log message
  before the method returns.\<close>

definition chart_targets ::
  "pyval \<Rightarrow> string \<Rightarrow> string \<Rightarrow> string \<Rightarrow> py_error + string list list" where
  "chart_targets panel host_name cluster_identifier volume_name =
     and_then (py_getitem panel ''targets'') (\<lambda>panel_targets.
     and_then (py_iter panel_targets) (\<lambda>panel_targets.
     and_then (visible_targets panel_targets) (\<lambda>targets.
     and_then (output_loop host_name cluster_identifier volume_name targets) (\<lambda>output.
     and_then (py_getitem panel ''title'') (\<lambda>_.
     Inr output)))))"

text \<open>The method takes the panel as an argument and never calls \<^verbatim>\<open>requests.get\<close>: the
  list of requested URLs comes back as it went in.\<close>

definition get_panel_chart_targets ::
  "api \<Rightarrow> pyval \<Rightarrow> string \<Rightarrow> string \<Rightarrow> string \<Rightarrow> string list
     \<Rightarrow> (py_error + string list list) \<times> string list" where
  "get_panel_chart_targets self panel host_name cluster_identifier volume_name log =
     (chart_targets panel host_name cluster_identifier volume_name, log)"

section \<open>compare_structure\<close>

text \<open>
  Python's \<^verbatim>\<open>==\<close> on the values of the model: \<^verbatim>\<open>True == 1\<close> and \<^verbatim>\<open>False == 0\<close>,
  lists are equal element by element, dictionaries when they have as many items and every
  item of the first has an equal key with an equal value in the second.
\<close>

function py_eq :: "pyval \<Rightarrow> pyval \<Rightarrow> bool"
  and py_eq_list :: "pyval list \<Rightarrow> pyval list \<Rightarrow> bool"
  and py_items_in :: "(pyval \<times> pyval) list \<Rightarrow> (pyval \<times> pyval) list \<Rightarrow> bool"
  and py_item_in :: "pyval \<Rightarrow> pyval \<Rightarrow> (pyval \<times> pyval) list \<Rightarrow> bool" where
  "py_eq PNone y = (y = PNone)"
| "py_eq (PBool a) y = (y = PBool a \<or> y = PInt (if a then 1 else 0))"
| "py_eq (PInt i) y =
     (y = PInt i \<or> (i = 1 \<and> y = PBool True) \<or> (i = 0 \<and> y = PBool False))"
| "py_eq (PStr s) y = (y = PStr s)"
| "py_eq (PList xs) y = (case y of PList ys \<Rightarrow> py_eq_list xs ys | _ \<Rightarrow> False)"
| "py_eq (PDict a) y =
     (case y of PDict b \<Rightarrow> length a = length b \<and> py_items_in a b | _ \<Rightarrow> False)"
| "py_eq_list [] ys = (ys = [])"
| "py_eq_list (x # xs) ys =
     (case ys of [] \<Rightarrow> False | y # ys' \<Rightarrow> py_eq x y \<and> py_eq_list xs ys')"
| "py_items_in [] b = True"
| "py_items_in ((k, v) # a) b = (py_item_in k v b \<and> py_items_in a b)"
| "py_item_in k v [] = False"
| "py_item_in k v ((k', v') # b) = (if py_eq k k' then py_eq v v' else py_item_in k v b)"
  by pat_completeness auto
termination
  by (relation "measure (\<lambda>x. case x of
        Inl (Inl (a, b)) \<Rightarrow> size a + size b
      | Inl (Inr (xs, ys)) \<Rightarrow> size_list size xs + size_list size ys
      | Inr (Inl (a, b)) \<Rightarrow>
          size_list (size_prod size size) a + size_list (size_prod size size) b
      | Inr (Inr (k, v, b)) \<Rightarrow> size k + size v + size_list (size_prod size size) b)")
    auto

text \<open>A dictionary key must be hashable: lists and dictionaries are not.\<close>

fun hashable :: "pyval \<Rightarrow> bool" where
  "hashable (PList xs) = False"
| "hashable (PDict kvs) = False"
| "hashable _ = True"

text \<open>\<^verbatim>\<open>d[k] = v\<close>: an item with an equal key keeps its key and its place and gets the new
  value, a new key goes to the end.\<close>

fun dict_update :: "(pyval \<times> pyval) list \<Rightarrow> pyval \<Rightarrow> pyval \<Rightarrow> (pyval \<times> pyval) list" where
  "dict_update [] k v = [(k, v)]"
| "dict_update ((k', v') # d) k v =
     (if py_eq k' k then (k', v) # d else (k', v') # dict_update d k v)"

definition dict_setitem ::
  "(pyval \<times> pyval) list \<Rightarrow> pyval \<Rightarrow> pyval \<Rightarrow> py_error + (pyval \<times> pyval) list" where
  "dict_setitem d k v = (if hashable k then Inr (dict_update d k v) else Inl TypeError)"

text \<open>\<^verbatim>\<open>d[k].append(x)\<close>: the value stored under the key must be a list.\<close>

fun dict_append_at ::
  "(pyval \<times> pyval) list \<Rightarrow> pyval \<Rightarrow> pyval \<Rightarrow> py_error + (pyval \<times> pyval) list" where
  "dict_append_at [] k x = Inl KeyError"
| "dict_append_at ((k', v') # d) k x =
     (if py_eq k' k then
        (case v' of
           PList xs \<Rightarrow> Inr ((k', PList (xs @ [x])) # d)
         | _ \<Rightarrow> Inl AttributeError)
      else and_then (dict_append_at d k x) (\<lambda>d'. Inr ((k', v') # d')))"

definition dict_append ::
  "(pyval \<times> pyval) list \<Rightarrow> pyval \<Rightarrow> pyval \<Rightarrow> py_error + (pyval \<times> pyval) list" where
  "dict_append d k x = (if hashable k then dict_append_at d k x else Inl TypeError)"

text \<open>Lines 172 to 177: the loop over the panels of one row, whose title is \<open>key\<close>.\<close>

fun panels_loop ::
  "(pyval \<times> pyval) list \<Rightarrow> pyval \<Rightarrow> pyval list \<Rightarrow> py_error + (pyval \<times> pyval) list" where
  "panels_loop structure_grafana key [] = Inr structure_grafana"
| "panels_loop structure_grafana key (panel # rest) =
     and_then (py_getitem panel ''title'') (\<lambda>title.
       if truthy title then
         and_then (dict_append structure_grafana key title) (\<lambda>sg.
         panels_loop sg key rest)
       else
         and_then (py_keys panel) (\<lambda>keys.
         and_then (if PStr ''displayName'' \<in> set keys
                   then and_then (py_getitem panel ''displayName'') (\<lambda>n. Inr (truthy n))
                   else Inr False) (\<lambda>use_name.
           if use_name then
             and_then (py_getitem panel ''displayName'') (\<lambda>name.
             and_then (dict_append structure_grafana key name) (\<lambda>sg.
             panels_loop sg key rest))
           else panels_loop structure_grafana key rest)))"

text \<open>Lines 170 to 177: the loop over the rows.\<close>

fun rows_loop ::
  "(pyval \<times> pyval) list \<Rightarrow> pyval list \<Rightarrow> py_error + (pyval \<times> pyval) list" where
  "rows_loop structure_grafana [] = Inr structure_grafana"
| "rows_loop structure_grafana (row # rest) =
     and_then (py_getitem row ''title'') (\<lambda>key.
     and_then (dict_setitem structure_grafana key (PList [])) (\<lambda>sg.
     and_then (py_getitem row ''panels'') (\<lambda>panels.
     and_then (py_iter panels) (\<lambda>panels.
     and_then (panels_loop sg key panels) (\<lambda>sg.
     rows_loop sg rest)))))"

text \<open>
  Lines 179 to 186 write three debug messages from the two structures. The last one is
  built from \<^verbatim>\<open>json.dumps(..., sort_keys=True)\<close> of both and from the lines of
  \<^verbatim>\<open>Differ().compare\<close> on the two dumps, all of which are computed before the message is
  logged. This is library code and it can raise: \<^verbatim>\<open>json.dumps\<close> a \<^verbatim>\<open>TypeError\<close> when
  the keys of a dictionary cannot be sorted, \<^verbatim>\<open>difflib\<close> a \<^verbatim>\<open>RecursionError\<close> on long
  dumps that differ. The text of the messages is no part of the result; whether building
  them raises is the parameter \<open>diff_message\<close> of the client, a function of the two
  structures: \<open>None\<close> when it returns, the exception when it raises.

  \<^verbatim>\<open>pytest.check(cond, message)\<close> records whether a check passed and lets the test go
  on. The result of \<^verbatim>\<open>compare_structure\<close> is the exception it raised, if any, and the
  outcomes of the checks it made, in order.
\<close>

definition compare_layout :: "api \<Rightarrow> pyval \<Rightarrow> pyval \<Rightarrow> py_error option \<times> bool list" where
  "compare_layout self structure layout =
     (case py_len layout of
        Inl e \<Rightarrow> (Some e, [])
      | Inr n \<Rightarrow>
          (case and_then (py_getitem layout ''dashboard'') (\<lambda>dashboard.
                and_then (py_getitem dashboard ''rows'') (\<lambda>rows.
                and_then (py_iter rows) (\<lambda>rows.
                and_then (rows_loop [] rows) (\<lambda>structure_grafana.
                case diff_message self structure (PDict structure_grafana) of
                  Some e \<Rightarrow> Inl e
                | None \<Rightarrow> Inr structure_grafana)))) of
             Inl e \<Rightarrow> (Some e, [0 < n])
           | Inr structure_grafana \<Rightarrow>
               (None, [0 < n, py_eq structure (PDict structure_grafana)])))"

definition compare_structure ::
  "api \<Rightarrow> pyval \<Rightarrow> string \<Rightarrow> string list
     \<Rightarrow> (py_error option \<times> bool list) \<times> string list" where
  "compare_structure self structure slug log =
     (let (layout, log') = get_dashboard self slug log
      in (case layout of
            Inl e \<Rightarrow> (Some e, [])
          | Inr layout \<Rightarrow> compare_layout self structure layout, log'))"

section \<open>What the specification says about get_panel\<close>

text \<open>A row or a panel has a \<^verbatim>\<open>title\<close> key equal to a given title; a panel has the type
  asked for, where a type counts as asked for when it is a non-empty string.\<close>

definition has_title :: "string \<Rightarrow> pyval \<Rightarrow> bool" where
  "has_title title x = (py_getitem x ''title'' = Inr (PStr title))"

definition has_type :: "string option \<Rightarrow> pyval \<Rightarrow> bool" where
  "has_type panel_type x =
     (case panel_type of
        None \<Rightarrow> True
      | Some ty \<Rightarrow> ty = [] \<or> py_getitem x ''type'' = Inr (PStr ty))"

text \<open>The rows of \<^verbatim>\<open>layout["dashboard"]["rows"]\<close> and the panels of a row.\<close>

definition dashboard_rows :: "pyval \<Rightarrow> py_error + pyval list" where
  "dashboard_rows layout =
     and_then (py_getitem layout ''dashboard'') (\<lambda>dashboard.
     and_then (py_getitem dashboard ''rows'') py_iter)"

definition row_panels :: "pyval \<Rightarrow> py_error + pyval list" where
  "row_panels row = and_then (py_getitem row ''panels'') py_iter"

text \<open>Well-formed rows and panels: JSON objects, and a panel that has the title asked for
  has a \<^verbatim>\<open>type\<close> key when a type is asked for.\<close>

fun is_dict :: "pyval \<Rightarrow> bool" where
  "is_dict (PDict kvs) = True"
| "is_dict _ = False"

definition panel_ok :: "string \<Rightarrow> string option \<Rightarrow> pyval \<Rightarrow> bool" where
  "panel_ok panel_title panel_type panel =
     (is_dict panel \<and>
      (case panel_type of
         None \<Rightarrow> True
       | Some ty \<Rightarrow>
           ty = [] \<or> py_getitem panel ''title'' \<noteq> Inr (PStr panel_title) \<or>
           py_getitem panel ''type'' \<noteq> Inl KeyError))"

section \<open>What the specification says about the slugs\<close>

text \<open>The segment after the first \<^verbatim>\<open>/\<close> of a URI: what follows the first slash, up to
  the next one.\<close>

definition slug_of_uri :: "string \<Rightarrow> string" where
  "slug_of_uri uri =
     takeWhile (\<lambda>c. c \<noteq> CHR ''/'') (tl (dropWhile (\<lambda>c. c \<noteq> CHR ''/'') uri))"

text \<open>An entry of the search result whose \<^verbatim>\<open>type\<close> is \<^verbatim>\<open>dash-db\<close>, the slug of an
  entry, and the entries on which the comprehension of \<^verbatim>\<open>get_dashboards\<close> does not raise:
  a dictionary with a \<^verbatim>\<open>type\<close>, and for a \<^verbatim>\<open>dash-db\<close> a string \<^verbatim>\<open>uri\<close> with a slash in it.\<close>

definition is_dash_db :: "pyval \<Rightarrow> bool" where
  "is_dash_db entry = (py_getitem entry ''type'' = Inr (PStr ''dash-db''))"

definition slug_of_entry :: "pyval \<Rightarrow> string" where
  "slug_of_entry entry =
     (case py_getitem entry ''uri'' of Inr (PStr uri) \<Rightarrow> slug_of_uri uri | _ \<Rightarrow> [])"

definition search_entry_ok :: "pyval \<Rightarrow> bool" where
  "search_entry_ok entry =
     (case py_getitem entry ''type'' of
        Inl e \<Rightarrow> False
      | Inr ty \<Rightarrow>
          if ty = PStr ''dash-db'' then
            (case py_getitem entry ''uri'' of
               Inr (PStr uri) \<Rightarrow> CHR ''/'' \<in> set uri
             | _ \<Rightarrow> False)
          else True)"

text \<open>A server with three search results, for the examples.\<close>

definition example_entries :: "pyval list" where
  "example_entries =
     [PDict [(PStr ''type'', PStr ''dash-db''), (PStr ''uri'', PStr ''db/cluster-dashboard'')],
      PDict [(PStr ''type'', PStr ''dash-folder''), (PStr ''uri'', PStr ''folders'')],
      PDict [(PStr ''uri'', PStr ''db/hosts/extra''), (PStr ''type'', PStr ''dash-db'')]]"

definition example_search :: response where
  "example_search = \<lparr>status_code = 200, json = Inr (PList example_entries)\<rparr>"

text \<open>A dashboard with two rows. The first panel of the second row has four targets: a
  query with an options block, a hidden one, one with a full template, and one that is
  no \<^verbatim>\<open>tendrl\<close> metric.\<close>

definition example_panel :: pyval where
  "example_panel =
     PDict [(PStr ''title'', PStr ''CPU Utilization''), (PStr ''type'', PStr ''graph''),
       (PStr ''targets'', PList [
          PDict [(PStr ''target'',
             PStr ''alias(tendrl.clusters.$cluster_id.nodes.$host_name.cpu.{percent-user,percent-system}, 'cpu')'')],
          PDict [(PStr ''hide'', PBool True), (PStr ''target'', PStr ''tendrl.hidden'')],
          PDict [(PStr ''hide'', PBool False),
                 (PStr ''targetFull'', PStr ''sumSeries(tendrl.volumes.$volume_name.usage)''),
                 (PStr ''target'', PStr ''sumSeries(#A)'')],
          PDict [(PStr ''target'', PStr ''other.metric'')]])]"

definition example_rows :: "pyval list" where
  "example_rows =
     [PDict [(PStr ''title'', PStr ''Header''),
             (PStr ''panels'', PList [
                PDict [(PStr ''title'', PStr ''Hosts''), (PStr ''type'', PStr ''singlestat'')],
                PDict [(PStr ''title'', PStr []), (PStr ''displayName'', PStr ''Health'')],
                PDict [(PStr ''title'', PStr []), (PStr ''type'', PStr ''text'')]])],
      PDict [(PStr ''title'', PStr ''CPU''),
             (PStr ''panels'', PList [
                example_panel,
                PDict [(PStr ''title'', PStr ''Memory''), (PStr ''type'', PStr ''graph'')]])]]"

definition example_layout :: pyval where
  "example_layout = PDict [(PStr ''dashboard'', PDict [(PStr ''rows'', PList example_rows)])]"

definition example_api :: api where
  "example_api =
     \<lparr>server = ''http://grafana/api/'',
      requests_get = (\<lambda>url.
        if url = ''http://grafana/api/search'' then Inr example_search
        else if url = ''http://grafana/api/dashboards/db/cluster-dashboard''
        then Inr \<lparr>status_code = 200, json = Inr example_layout\<rparr>
        else Inl RequestException),
      check_response = (\<lambda>r. if status_code r = 200 then None else Some AssertionError),
      diff_message = (\<lambda>structure structure_grafana. None)\<rparr>"

text \<open>A server whose dashboards all have one row with two panels of the same title, the
  first of them without a \<^verbatim>\<open>type\<close>.\<close>

definition typeless_panels :: "pyval list" where
  "typeless_panels =
     [PDict [(PStr ''title'', PStr ''Memory'')],
      PDict [(PStr ''title'', PStr ''Memory''), (PStr ''type'', PStr ''graph'')]]"

definition typeless_row :: pyval where
  "typeless_row = PDict [(PStr ''title'', PStr ''CPU''), (PStr ''panels'', PList typeless_panels)]"

definition typeless_layout :: pyval where
  "typeless_layout =
     PDict [(PStr ''dashboard'', PDict [(PStr ''rows'', PList [typeless_row])])]"

definition typeless_api :: api where
  "typeless_api =
     \<lparr>server = ''http://grafana/api/'',
      requests_get = (\<lambda>url. Inr \<lparr>status_code = 200, json = Inr typeless_layout\<rparr>),
      check_response = (\<lambda>r. None),
      diff_message = (\<lambda>structure structure_grafana. None)\<rparr>"

section \<open>What the specification says about compare_structure\<close>

text \<open>The name a panel contributes: its \<^verbatim>\<open>title\<close> when that is truthy, else its
  \<^verbatim>\<open>displayName\<close> when that is truthy; nothing when both are falsy or absent.\<close>

definition spec_panel_name :: "pyval \<Rightarrow> pyval option" where
  "spec_panel_name panel =
     (case py_get panel ''title'' of
        Inl e \<Rightarrow> None
      | Inr title \<Rightarrow>
          if truthy title then Some title
          else (case py_get panel ''displayName'' of
                  Inl e \<Rightarrow> None
                | Inr name \<Rightarrow> if truthy name then Some name else None))"

text \<open>The title of a row and the names of its panels, in panel order.\<close>

definition spec_row_title :: "pyval \<Rightarrow> pyval" where
  "spec_row_title row = (case py_getitem row ''title'' of Inr title \<Rightarrow> title | Inl e \<Rightarrow> PNone)"

definition spec_row_names :: "pyval \<Rightarrow> pyval list" where
  "spec_row_names row =
     (case row_panels row of
        Inr panels \<Rightarrow> List.map_filter spec_panel_name panels
      | Inl e \<Rightarrow> [])"

text \<open>The mapping that sends the title of each row to the names of its panels. The
  rows are entered in order, as into a Python dictionary: of rows with equal titles the
  last one counts.\<close>

definition spec_structure :: "pyval list \<Rightarrow> (pyval \<times> pyval) list" where
  "spec_structure rows =
     fold (\<lambda>row mapping. dict_update mapping (spec_row_title row) (PList (spec_row_names row)))
       rows []"

text \<open>The rows on which the loops of \<^verbatim>\<open>compare_structure\<close> do not raise: the row has
  a hashable \<^verbatim>\<open>title\<close> and \<^verbatim>\<open>panels\<close> that can be iterated, and each of these has a
  \<^verbatim>\<open>title\<close> key.\<close>

definition titled :: "pyval \<Rightarrow> bool" where
  "titled panel = (case py_getitem panel ''title'' of Inr title \<Rightarrow> True | Inl e \<Rightarrow> False)"

definition row_complete :: "pyval \<Rightarrow> bool" where
  "row_complete row =
     (case py_getitem row ''title'' of
        Inl e \<Rightarrow> False
      | Inr title \<Rightarrow>
          hashable title \<and>
          (case row_panels row of Inl e \<Rightarrow> False | Inr panels \<Rightarrow> list_all titled panels))"

text \<open>A server whose dashboards all have one row with two panels, the second of them
  with neither a \<^verbatim>\<open>title\<close> nor a \<^verbatim>\<open>displayName\<close>; and the structure expected of the
  example dashboard above, its rows in the other order.\<close>

definition untitled_rows :: "pyval list" where
  "untitled_rows =
     [PDict [(PStr ''title'', PStr ''CPU''),
             (PStr ''panels'', PList [
                PDict [(PStr ''title'', PStr ''Load'')],
                PDict [(PStr ''type'', PStr ''text'')]])]]"

definition untitled_layout :: pyval where
  "untitled_layout = PDict [(PStr ''dashboard'', PDict [(PStr ''rows'', PList untitled_rows)])]"

definition untitled_api :: api where
  "untitled_api =
     \<lparr>server = ''http://grafana/api/'',
      requests_get = (\<lambda>url. Inr \<lparr>status_code = 200, json = Inr untitled_layout\<rparr>),
      check_response = (\<lambda>r. None),
      diff_message = (\<lambda>structure structure_grafana. None)\<rparr>"

definition example_structure :: pyval where
  "example_structure =
     PDict [(PStr ''CPU'', PList [PStr ''CPU Utilization'', PStr ''Memory'']),
            (PStr ''Header'', PList [PStr ''Hosts'', PStr ''Health''])]"

text \<open>The example server again, seen by a client on which building the debug messages
  raises.\<close>

definition recursing_api :: api where
  "recursing_api =
     example_api\<lparr>diff_message := (\<lambda>structure structure_grafana. Some RecursionError)\<rparr>"

section \<open>What the specification says about chart targets\<close>

text \<open>\<^verbatim>\<open>sep.join(pieces)\<close>, and what it means that every occurrence of a token in a
  string has been replaced: the string is a list of pieces with the token between them,
  no piece contains the token, and the result is the same pieces with the new text
  between them.\<close>

fun join :: "string \<Rightarrow> string list \<Rightarrow> string" where
  "join sep [] = []"
| "join sep [x] = x"
| "join sep (x # y # ys) = x @ sep @ join sep (y # ys)"

definition every_occurrence_replaced :: "string \<Rightarrow> string \<Rightarrow> string \<Rightarrow> string \<Rightarrow> bool" where
  "every_occurrence_replaced old new s s' =
     (\<exists>pieces. pieces \<noteq> [] \<and> s = join old pieces \<and>
        (\<forall>p\<in>set pieces. \<not> str_contains old p) \<and> s' = join new pieces)"

text \<open>A target is visible when its \<^verbatim>\<open>hide\<close> key is absent or falsy; its template is the
  value of \<^verbatim>\<open>targetFull\<close> when that is truthy and the value of \<^verbatim>\<open>target\<close> otherwise.\<close>

definition target_visible :: "pyval \<Rightarrow> bool" where
  "target_visible target =
     (case py_get target ''hide'' of Inr hide \<Rightarrow> \<not> truthy hide | Inl e \<Rightarrow> True)"

definition target_template :: "pyval \<Rightarrow> py_error + pyval" where
  "target_template target =
     and_then (py_get target ''targetFull'') (\<lambda>full.
       if truthy full then Inr full else py_getitem target ''target'')"

definition panel_targets :: "pyval \<Rightarrow> py_error + pyval list" where
  "panel_targets panel = and_then (py_getitem panel ''targets'') py_iter"

text \<open>The host name with every dot replaced by an underscore.\<close>

definition underscored :: "string \<Rightarrow> string" where
  "underscored host_name = map (\<lambda>x. if x = CHR ''.'' then CHR ''_'' else x) host_name"

text \<open>The inner list of a template: the template is a string, the three placeholders are
  replaced in it one after the other, and the result of that is what is split at
  \<^verbatim>\<open>", "\<close> and normalised.\<close>

definition substituted_then_split ::
  "string \<Rightarrow> string \<Rightarrow> string \<Rightarrow> pyval \<Rightarrow> string list \<Rightarrow> bool" where
  "substituted_then_split host_name cluster_identifier volume_name template out =
     (\<exists>s s1 s2 s3.
        template = PStr s \<and>
        every_occurrence_replaced ''$cluster_id'' cluster_identifier s s1 \<and>
        every_occurrence_replaced ''$volume_name'' volume_name s1 s2 \<and>
        every_occurrence_replaced ''$host_name'' (py_replace ''.'' ''_'' host_name) s2 s3 \<and>
        out = target_output (py_split '', '' s3))"

section \<open>Basic facts\<close>

text \<open>The recursive equations of \<open>py_split\<close> and \<open>py_replace\<close> have no pattern on the
  left and are unfolded by hand.\<close>

declare py_split.simps [simp del] py_replace.simps [simp del]

lemma and_then_simps [simp]:
  "and_then (Inl e) f = Inl e"
  "and_then (Inr x) f = f x"
  by (simp_all add: and_then_def)

lemma key_mem_iff: "k \<in> fst ` set kvs \<longleftrightarrow> map_of kvs k \<noteq> None"
  by (simp add: map_of_eq_None_iff)

lemma py_find_single:
  "py_find [c] s = (if c \<in> set s then Some (length (takeWhile (\<lambda>x. x \<noteq> c) s)) else None)"
  by (induction s) auto

lemma dropWhile_neq_mem:
  "c \<in> set s \<Longrightarrow> \<exists>rest. dropWhile (\<lambda>x. x \<noteq> c) s = c # rest"
  by (induction s) auto

lemma dropWhile_neq_Nil: "c \<notin> set s \<Longrightarrow> dropWhile (\<lambda>x. x \<noteq> c) s = []"
  by (induction s) auto

lemma take_length_takeWhile: "take (length (takeWhile P s)) s = takeWhile P s"
  by (induction s) auto

lemma drop_length_takeWhile: "drop (length (takeWhile P s)) s = dropWhile P s"
  by (induction s) auto

lemma py_split_single:
  "py_split [c] s =
     (case dropWhile (\<lambda>x. x \<noteq> c) s of
        [] \<Rightarrow> [s]
      | x # rest \<Rightarrow> takeWhile (\<lambda>x. x \<noteq> c) s # py_split [c] rest)"
proof (cases "c \<in> set s")
  case False
  have "py_split [c] s = [s]"
    using False by (subst py_split.simps) (simp add: py_find_single)
  then show ?thesis by (simp add: dropWhile_neq_Nil [OF False])
next
  case True
  from dropWhile_neq_mem [OF True]
  obtain rest where d: "dropWhile (\<lambda>x. x \<noteq> c) s = c # rest" ..
  have "drop (Suc (length (takeWhile (\<lambda>x. x \<noteq> c) s))) s =
      tl (drop (length (takeWhile (\<lambda>x. x \<noteq> c) s)) s)"
    by (simp add: drop_Suc tl_drop)
  then have r: "drop (Suc (length (takeWhile (\<lambda>x. x \<noteq> c) s))) s = rest"
    by (simp add: drop_length_takeWhile d)
  have "py_split [c] s = takeWhile (\<lambda>x. x \<noteq> c) s # py_split [c] rest"
    using True by (subst py_split.simps) (simp add: py_find_single take_length_takeWhile r)
  then show ?thesis by (simp add: d)
qed

lemma py_split_hd: "hd (py_split [c] s) = takeWhile (\<lambda>x. x \<noteq> c) s"
proof (cases "dropWhile (\<lambda>x. x \<noteq> c) s")
  case Nil
  then have "takeWhile (\<lambda>x. x \<noteq> c) s = s"
    by (induction s) (auto split: if_splits)
  moreover have "py_split [c] s = [s]"
    using py_split_single [of c s] by (simp add: Nil)
  ultimately show ?thesis by (simp only: list.sel)
next
  case (Cons x rest)
  have "py_split [c] s = takeWhile (\<lambda>x. x \<noteq> c) s # py_split [c] rest"
    using py_split_single [of c s] by (simp add: Cons)
  then show ?thesis by simp
qed

lemma py_split_index1:
  "py_index (py_split [c] s) (Suc 0) =
     (if c \<in> set s
      then Inr (takeWhile (\<lambda>x. x \<noteq> c) (tl (dropWhile (\<lambda>x. x \<noteq> c) s)))
      else Inl IndexError)"
proof (cases "dropWhile (\<lambda>x. x \<noteq> c) s")
  case Nil
  then have "c \<notin> set s" by (auto simp: dropWhile_eq_Nil_conv)
  moreover have "py_split [c] s = [s]"
    using py_split_single [of c s] by (simp add: Nil)
  ultimately show ?thesis by (simp add: py_index_def)
next
  case (Cons x rest)
  then have "c \<in> set s"
    using dropWhile_neq_Nil [of c s] by auto
  moreover have "py_split [c] rest \<noteq> []"
    by (subst py_split_single) (simp split: list.splits)
  moreover have "py_split [c] s = takeWhile (\<lambda>x. x \<noteq> c) s # py_split [c] rest"
    using py_split_single [of c s] by (simp add: Cons)
  ultimately show ?thesis
    using py_split_hd [of c rest] by (simp add: py_index_def hd_conv_nth Cons)
qed

lemma py_rfind_None_iff: "py_rfind sub s = None \<longleftrightarrow> py_find sub s = None"
  by (induction s) (auto split: option.splits)

lemma py_find_Some:
  "py_find old s = Some i \<Longrightarrow> s = take i s @ old @ drop (i + length old) s"
proof (induction s arbitrary: i)
  case Nil
  then show ?case by (simp split: if_splits)
next
  case (Cons c s)
  show ?case
  proof (cases "prefix old (c # s)")
    case True
    with Cons.prems have "i = 0" by simp
    moreover from True obtain zs where "c # s = old @ zs" by (auto simp: prefix_def)
    ultimately show ?thesis by simp
  next
    case False
    with Cons.prems obtain j where j: "py_find old s = Some j" "i = Suc j" by auto
    from Cons.IH [OF j(1)] j(2) show ?thesis by simp
  qed
qed

lemma py_find_take:
  "py_find old s = Some i \<Longrightarrow> old \<noteq> [] \<Longrightarrow> py_find old (take i s) = None"
proof (induction s arbitrary: i)
  case Nil
  then show ?case by simp
next
  case (Cons c s)
  show ?case
  proof (cases "prefix old (c # s)")
    case True
    with Cons.prems show ?thesis by simp
  next
    case False
    with Cons.prems obtain j where j: "py_find old s = Some j" "i = Suc j" by auto
    have "\<not> prefix old (c # take j s)"
    proof
      assume "prefix old (c # take j s)"
      moreover have "prefix (c # take j s) (c # s)" by (simp add: take_is_prefix)
      ultimately have "prefix old (c # s)" by (rule prefix_order.trans)
      with False show False ..
    qed
    with Cons.IH [OF j(1) Cons.prems(2)] j(2) show ?thesis by simp
  qed
qed

lemma py_split_None: "py_find sep s = None \<Longrightarrow> py_split sep s = [s]"
  by (subst py_split.simps) simp

lemma py_split_Some:
  "py_find sep s = Some i \<Longrightarrow> sep \<noteq> [] \<Longrightarrow>
     py_split sep s = take i s # py_split sep (drop (i + length sep) s)"
  by (subst py_split.simps) simp

lemma py_split_not_Nil: "py_split sep s \<noteq> []"
  by (subst py_split.simps) (simp split: option.splits)

lemma join_Cons: "xs \<noteq> [] \<Longrightarrow> join sep (x # xs) = x @ sep @ join sep xs"
  by (cases xs) simp_all

lemma join_py_split: "old \<noteq> [] \<Longrightarrow> join old (py_split old s) = s"
proof (induction old s rule: py_split.induct)
  case (1 sep s)
  show ?case
  proof (cases "py_find sep s")
    case None
    then show ?thesis by (simp add: py_split_None)
  next
    case (Some i)
    with 1 have "join sep (py_split sep (drop (i + length sep) s)) = drop (i + length sep) s"
      by simp
    with Some 1(2) py_find_Some [OF Some] show ?thesis
      by (simp add: py_split_Some join_Cons py_split_not_Nil)
  qed
qed

lemma py_split_free:
  "old \<noteq> [] \<Longrightarrow> p \<in> set (py_split old s) \<Longrightarrow> \<not> str_contains old p"
proof (induction old s rule: py_split.induct)
  case (1 sep s)
  show ?case
  proof (cases "py_find sep s")
    case None
    with 1(3) show ?thesis by (simp add: py_split_None str_contains_def)
  next
    case (Some i)
    with 1(2,3) have "p = take i s \<or> p \<in> set (py_split sep (drop (i + length sep) s))"
      by (simp add: py_split_Some)
    then show ?thesis
    proof
      assume "p = take i s"
      with py_find_take [OF Some 1(2)] show ?thesis by (simp add: str_contains_def)
    next
      assume "p \<in> set (py_split sep (drop (i + length sep) s))"
      with 1(1) [OF Some 1(2) 1(2)] show ?thesis by simp
    qed
  qed
qed

lemma py_replace_join: "old \<noteq> [] \<Longrightarrow> py_replace old new s = join new (py_split old s)"
proof (induction old s rule: py_split.induct)
  case (1 sep s)
  show ?case
  proof (cases "py_find sep s")
    case None
    with 1(2) show ?thesis by (subst py_replace.simps) (simp add: py_split_None)
  next
    case (Some i)
    with 1 have "py_replace sep new (drop (i + length sep) s) =
        join new (py_split sep (drop (i + length sep) s))"
      by simp
    with Some 1(2) show ?thesis
      by (subst py_replace.simps) (simp add: py_split_Some join_Cons py_split_not_Nil)
  qed
qed

lemma py_replace_every:
  "old \<noteq> [] \<Longrightarrow> every_occurrence_replaced old new s (py_replace old new s)"
  unfolding every_occurrence_replaced_def
  by (rule exI [of _ "py_split old s"])
     (simp add: py_split_not_Nil join_py_split py_replace_join py_split_free)

lemma py_find_Nil: "py_find [] s = Some 0"
  by (cases s) simp_all

lemma py_replace_absent: "\<not> str_contains old s \<Longrightarrow> py_replace old new s = s"
  by (subst py_replace.simps) (auto simp: str_contains_def py_find_Nil)

lemma py_replace_single:
  "py_replace [a] [b] s = map (\<lambda>x. if x = a then b else x) s"
proof (induction "[a]" "[b]" s rule: py_replace.induct)
  case (1 s)
  show ?case
  proof (cases "a \<in> set s")
    case False
    then have "map (\<lambda>x. if x = a then b else x) s = s"
      by (induction s) auto
    with False show ?thesis
      by (subst py_replace.simps) (simp add: py_find_single)
  next
    case True
    let ?i = "length (takeWhile (\<lambda>x. x \<noteq> a) s)"
    from True have f: "py_find [a] s = Some ?i" by (simp add: py_find_single)
    from 1 [OF _ f] have ih: "py_replace [a] [b] (drop (?i + length [a]) s) =
        map (\<lambda>x. if x = a then b else x) (drop (?i + length [a]) s)"
      by simp
    from py_find_Some [OF f] have d: "s = take ?i s @ [a] @ drop (?i + length [a]) s" .
    have t: "map (\<lambda>x. if x = a then b else x) (take ?i s) = take ?i s"
      unfolding take_length_takeWhile
      by (rule map_idI) (auto dest: set_takeWhileD)
    have "map (\<lambda>x. if x = a then b else x) s =
        map (\<lambda>x. if x = a then b else x) (take ?i s @ [a] @ drop (?i + length [a]) s)"
      using d by simp
    also have "\<dots> = take ?i s @ [b] @ map (\<lambda>x. if x = a then b else x) (drop (?i + length [a]) s)"
      using t by simp
    finally show ?thesis
      using f ih by (subst py_replace.simps) simp
  qed
qed

section \<open>C5: the slugs of get_dashboards\<close>

lemma dashboard_slugs_bad:
  assumes "\<not> search_entry_ok e"
  shows "\<exists>err. dashboard_slugs (e # es) = Inl err"
proof (cases "py_getitem e ''type''")
  case (Inl err)
  then show ?thesis by simp
next
  case ty: (Inr ty)
  with assms have db: "ty = PStr ''dash-db''"
    by (simp add: search_entry_ok_def split: if_splits)
  show ?thesis
  proof (cases "py_getitem e ''uri''")
    case (Inl err)
    with ty db show ?thesis by simp
  next
    case (Inr uri)
    with assms ty db show ?thesis
      by (cases uri) (simp_all add: search_entry_ok_def py_split_index1 slug_of_uri_def)
  qed
qed

lemma dashboard_slugs_good:
  assumes "search_entry_ok e"
  shows "dashboard_slugs (e # es) =
     and_then (dashboard_slugs es)
       (\<lambda>r. Inr (if is_dash_db e then slug_of_entry e # r else r))"
proof (cases "py_getitem e ''type''")
  case (Inl err)
  with assms show ?thesis by (simp add: search_entry_ok_def)
next
  case ty: (Inr ty)
  show ?thesis
  proof (cases "ty = PStr ''dash-db''")
    case False
    with ty show ?thesis
      by (cases "dashboard_slugs es") (simp_all add: is_dash_db_def)
  next
    case True
    with assms ty obtain u where u: "py_getitem e ''uri'' = Inr (PStr u)" "CHR ''/'' \<in> set u"
      by (auto simp: search_entry_ok_def split: sum.splits pyval.splits)
    with ty True show ?thesis
      by (simp add: is_dash_db_def slug_of_entry_def py_split_index1 slug_of_uri_def)
  qed
qed

lemma dashboard_slugs_iff:
  "dashboard_slugs entries = Inr slugs \<longleftrightarrow>
     list_all search_entry_ok entries \<and>
     slugs = map slug_of_entry (filter is_dash_db entries)"
proof (induction entries arbitrary: slugs)
  case Nil
  show ?case by auto
next
  case (Cons e entries)
  show ?case
  proof (cases "search_entry_ok e")
    case False
    with dashboard_slugs_bad [of e entries] show ?thesis by auto
  next
    case True
    show ?thesis
    proof (cases "dashboard_slugs entries")
      case (Inl err)
      with Cons [of "map slug_of_entry (filter is_dash_db entries)"] True show ?thesis
        by (simp add: dashboard_slugs_good del: dashboard_slugs.simps)
    next
      case (Inr rest)
      with Cons [of rest] True show ?thesis
        by (auto simp add: dashboard_slugs_good simp del: dashboard_slugs.simps)
    qed
  qed
qed

text \<open>
  Claim C5. Whenever the search endpoint answers with a JSON array, \<^verbatim>\<open>get_dashboards\<close>
  returns a list of slugs exactly when no entry makes the comprehension raise, and the
  list is then, in the order of the array, the segment after the first \<^verbatim>\<open>/\<close> of the
  \<^verbatim>\<open>uri\<close> of each entry whose \<^verbatim>\<open>type\<close> is \<^verbatim>\<open>dash-db\<close>; the other entries give no slug.
\<close>

theorem get_dashboards_slugs:
  assumes "requests_get self (server self @ ''search'') = Inr r"
    and "check_response self r = None"
    and "json r = Inr (PList entries)"
  shows "fst (get_dashboards self log) = Inr slugs \<longleftrightarrow>
     list_all search_entry_ok entries \<and>
     slugs = map slug_of_entry (filter is_dash_db entries)"
  using assms
  by (simp add: get_dashboards_def http_get_def checked_json_def dashboard_slugs_iff)

theorem get_dashboards_slugs_witness:
  "requests_get example_api (server example_api @ ''search'') = Inr example_search \<and>
   check_response example_api example_search = None \<and>
   json example_search = Inr (PList example_entries) \<and>
   fst (get_dashboards example_api []) = Inr [''cluster-dashboard'', ''hosts'']"
proof -
  have h1: "requests_get example_api (server example_api @ ''search'') = Inr example_search"
    by (simp add: example_api_def)
  have h2: "check_response example_api example_search = None"
    by (simp add: example_api_def example_search_def)
  have h3: "json example_search = Inr (PList example_entries)"
    by (simp add: example_search_def)
  have ok: "list_all search_entry_ok example_entries \<and>
     [''cluster-dashboard'', ''hosts''] = map slug_of_entry (filter is_dash_db example_entries)"
    by (simp add: example_entries_def search_entry_ok_def slug_of_entry_def slug_of_uri_def
        is_dash_db_def)
  have c: "fst (get_dashboards example_api []) = Inr [''cluster-dashboard'', ''hosts'']"
    by (rule iffD2 [OF get_dashboards_slugs [OF h1 h2 h3] ok])
  show ?thesis by (intro conjI h1 h2 h3 c)
qed

section \<open>C6: the request of get_dashboard\<close>

text \<open>
  Claim C6. \<^verbatim>\<open>get_dashboard(slug)\<close> requests one URL, the server base followed by
  \<^verbatim>\<open>dashboards/db/\<close> and the slug, and it returns a value exactly when the request gave
  a response, the response check returned, and the body parsed as JSON; the value is the
  parsed body.
\<close>

theorem get_dashboard_url_and_body:
  "snd (get_dashboard self slug log) = log @ [server self @ ''dashboards/db/'' @ slug] \<and>
   (fst (get_dashboard self slug log) = Inr body \<longleftrightarrow>
      (\<exists>r. requests_get self (server self @ ''dashboards/db/'' @ slug) = Inr r \<and>
           check_response self r = None \<and> json r = Inr body))"
  by (cases "requests_get self (server self @ ''dashboards/db/'' @ slug)")
     (auto simp add: get_dashboard_def http_get_def checked_json_def split: option.splits)

section \<open>C1: what get_panel returns and when it asserts\<close>

lemma row_matches_dict: "is_dict row \<Longrightarrow> row_matches rt row = Inr (has_title rt row)"
  by (cases row) (auto simp: row_matches_def has_title_def key_mem_iff split: option.splits)

lemma row_matches_Inr: "row_matches rt row = Inr b \<Longrightarrow> b = has_title rt row"
  by (cases row)
     (auto simp: row_matches_def has_title_def key_mem_iff split: option.splits if_splits)

lemma panel_matches_dict: "is_dict p \<Longrightarrow> panel_matches pt p = Inr (has_title pt p)"
  by (cases p) (auto simp: panel_matches_def has_title_def key_mem_iff split: option.splits)

lemma panel_matches_Inr: "panel_matches pt p = Inr b \<Longrightarrow> b = has_title pt p"
  by (cases p)
     (auto simp: panel_matches_def has_title_def key_mem_iff split: option.splits if_splits)

lemma panel_matches_type_Inr:
  "panel_matches_type pt ty p = Inr b \<Longrightarrow>
     b = (has_title pt p \<and> py_getitem p ''type'' = Inr (PStr ty))"
  by (cases p)
     (auto simp: panel_matches_type_def has_title_def key_mem_iff
        split: option.splits if_splits)

lemma panel_matches_type_dict:
  "is_dict p \<Longrightarrow>
   py_getitem p ''title'' \<noteq> Inr (PStr pt) \<or> py_getitem p ''type'' \<noteq> Inl KeyError \<Longrightarrow>
   panel_matches_type pt ty p = Inr (has_title pt p \<and> py_getitem p ''type'' = Inr (PStr ty))"
  by (cases p)
     (auto simp: panel_matches_type_def has_title_def key_mem_iff
        split: option.splits if_splits)

lemma filter_raising_Inr:
  "filter_raising c xs = Inr ys \<Longrightarrow> (\<And>x b. c x = Inr b \<Longrightarrow> b = P x) \<Longrightarrow> ys = filter P xs"
proof (induction xs arbitrary: ys)
  case Nil
  then show ?case by simp
next
  case (Cons x xs)
  from Cons.prems(1) obtain b where b: "c x = Inr b"
    by (cases "c x") auto
  with Cons.prems(1) obtain zs where zs: "filter_raising c xs = Inr zs"
    by (cases "filter_raising c xs") auto
  from Cons.IH [OF zs Cons.prems(2)] have "zs = filter P xs" .
  moreover from Cons.prems(2) [OF b] have "b = P x" .
  ultimately show ?case using Cons.prems(1) b zs by auto
qed

lemma filter_raising_total:
  "(\<And>x. x \<in> set xs \<Longrightarrow> c x = Inr (P x)) \<Longrightarrow> filter_raising c xs = Inr (filter P xs)"
  by (induction xs) auto

lemma found_panels_Inr:
  assumes "found_panels pt ty panels = Inr ys"
  shows "ys = filter (\<lambda>p. has_title pt p \<and> has_type ty p) panels"
proof (cases ty)
  case None
  with assms have "filter_raising (panel_matches pt) panels = Inr ys"
    by (simp add: found_panels_def)
  from filter_raising_Inr [OF this, of "has_title pt"] panel_matches_Inr
  have "ys = filter (has_title pt) panels" by blast
  with None show ?thesis by (simp add: has_type_def)
next
  case (Some t)
  show ?thesis
  proof (cases "t = []")
    case True
    with Some assms have "filter_raising (panel_matches pt) panels = Inr ys"
      by (simp add: found_panels_def)
    from filter_raising_Inr [OF this, of "has_title pt"] panel_matches_Inr
    have "ys = filter (has_title pt) panels" by blast
    with Some True show ?thesis by (simp add: has_type_def)
  next
    case False
    with Some assms have "filter_raising (panel_matches_type pt t) panels = Inr ys"
      by (simp add: found_panels_def)
    from filter_raising_Inr [OF this,
        of "\<lambda>p. has_title pt p \<and> py_getitem p ''type'' = Inr (PStr t)"]
      panel_matches_type_Inr
    have "ys = filter (\<lambda>p. has_title pt p \<and> py_getitem p ''type'' = Inr (PStr t)) panels"
      by blast
    with Some False show ?thesis by (simp add: has_type_def)
  qed
qed

lemma found_panels_total:
  assumes "list_all (panel_ok pt ty) panels"
  shows "found_panels pt ty panels = Inr (filter (\<lambda>p. has_title pt p \<and> has_type ty p) panels)"
proof (cases ty)
  case None
  have "filter_raising (panel_matches pt) panels = Inr (filter (has_title pt) panels)"
    using assms by (intro filter_raising_total panel_matches_dict)
      (simp add: list_all_iff panel_ok_def)
  with None show ?thesis by (simp add: found_panels_def has_type_def)
next
  case (Some t)
  show ?thesis
  proof (cases "t = []")
    case True
    have "filter_raising (panel_matches pt) panels = Inr (filter (has_title pt) panels)"
      using assms by (intro filter_raising_total panel_matches_dict)
        (simp add: list_all_iff panel_ok_def)
    with Some True show ?thesis by (simp add: found_panels_def has_type_def)
  next
    case False
    have "filter_raising (panel_matches_type pt t) panels =
        Inr (filter (\<lambda>p. has_title pt p \<and> py_getitem p ''type'' = Inr (PStr t)) panels)"
      using assms Some False
      by (intro filter_raising_total panel_matches_type_dict)
        (auto simp add: list_all_iff panel_ok_def)
    with Some False show ?thesis by (simp add: found_panels_def has_type_def)
  qed
qed

lemma panel_of_layout_eq:
  "panel_of_layout pt rt ty layout =
     and_then (py_len layout) (\<lambda>n.
       if n = 0 then Inl AssertionError
       else and_then (dashboard_rows layout) (\<lambda>rows.
            and_then (filter_raising (row_matches rt) rows) (\<lambda>fr.
              if length fr \<noteq> 1 then Inl AssertionError
              else and_then (row_panels (hd fr)) (\<lambda>panels.
                   and_then (found_panels pt ty panels) (\<lambda>fp.
                     if length fp \<noteq> 1 then Inl AssertionError else Inr (hd fp))))))"
  by (auto simp add: panel_of_layout_def dashboard_rows_def row_panels_def py_assert_def
      and_then_def split: sum.splits)

lemma getitem_len:
  assumes "py_getitem layout k = Inr v"
  shows "\<exists>n. py_len layout = Inr (Suc n)"
proof (cases layout)
  case (PDict kvs)
  with assms have "kvs \<noteq> []" by (auto split: option.splits)
  then obtain x xs where "kvs = x # xs" by (cases kvs) auto
  with PDict show ?thesis by simp
qed (use assms in simp_all)

lemma dashboard_rows_len:
  "dashboard_rows layout = Inr rows \<Longrightarrow> \<exists>n. py_len layout = Inr (Suc n)"
  by (cases "py_getitem layout ''dashboard''") (auto simp: dashboard_rows_def dest: getitem_len)

lemma found_rows_total:
  "list_all is_dict rows \<Longrightarrow>
     filter_raising (row_matches rt) rows = Inr (filter (has_title rt) rows)"
  by (intro filter_raising_total row_matches_dict) (simp add: list_all_iff)

lemma panel_of_layout_Inr:
  assumes a: "panel_of_layout pt rt ty layout = Inr panel"
  shows "\<exists>rows row panels.
     dashboard_rows layout = Inr rows \<and> filter (has_title rt) rows = [row] \<and>
     row_panels row = Inr panels \<and>
     filter (\<lambda>p. has_title pt p \<and> has_type ty p) panels = [panel]"
proof -
  obtain n where n: "py_len layout = Inr n"
    using a by (cases "py_len layout") (simp_all add: panel_of_layout_eq)
  have n0: "n \<noteq> 0"
    using a n by (auto simp: panel_of_layout_eq split: if_splits)
  obtain rows where rows: "dashboard_rows layout = Inr rows"
    using a n n0 by (cases "dashboard_rows layout") (simp_all add: panel_of_layout_eq)
  obtain fr where fr: "filter_raising (row_matches rt) rows = Inr fr"
    using a n n0 rows
    by (cases "filter_raising (row_matches rt) rows") (simp_all add: panel_of_layout_eq)
  have lfr: "length fr = 1"
    using a n n0 rows fr by (auto simp: panel_of_layout_eq split: if_splits)
  obtain panels where panels: "row_panels (hd fr) = Inr panels"
    using a n n0 rows fr lfr
    by (cases "row_panels (hd fr)") (simp_all add: panel_of_layout_eq)
  obtain fp where fp: "found_panels pt ty panels = Inr fp"
    using a n n0 rows fr lfr panels
    by (cases "found_panels pt ty panels") (simp_all add: panel_of_layout_eq)
  have lfp: "length fp = 1" and p: "panel = hd fp"
    using a n n0 rows fr lfr panels fp by (auto simp: panel_of_layout_eq split: if_splits)
  have "fr = filter (has_title rt) rows"
    by (rule filter_raising_Inr [OF fr]) (rule row_matches_Inr)
  moreover from lfr have "fr = [hd fr]" by (cases fr) auto
  ultimately have r1: "filter (has_title rt) rows = [hd fr]" by simp
  have "fp = filter (\<lambda>p. has_title pt p \<and> has_type ty p) panels"
    by (rule found_panels_Inr [OF fp])
  moreover from lfp p have "fp = [panel]" by (cases fp) auto
  ultimately have r2: "filter (\<lambda>p. has_title pt p \<and> has_type ty p) panels = [panel]"
    by simp
  from rows r1 panels r2 show ?thesis by blast
qed

lemma panel_of_layout_empty:
  "py_len layout = Inr 0 \<Longrightarrow> panel_of_layout pt rt ty layout = Inl AssertionError"
  by (simp add: panel_of_layout_eq)

lemma panel_of_layout_rows:
  assumes "dashboard_rows layout = Inr rows" and "list_all is_dict rows"
    and "length (filter (has_title rt) rows) \<noteq> 1"
  shows "panel_of_layout pt rt ty layout = Inl AssertionError"
proof -
  from dashboard_rows_len [OF assms(1)] obtain n where "py_len layout = Inr (Suc n)" ..
  with assms show ?thesis
    by (simp add: panel_of_layout_eq found_rows_total)
qed

lemma panel_of_layout_panels:
  assumes "dashboard_rows layout = Inr rows" and "list_all is_dict rows"
    and "filter (has_title rt) rows = [row]"
    and "row_panels row = Inr panels" and "list_all (panel_ok pt ty) panels"
  shows "panel_of_layout pt rt ty layout =
     (case filter (\<lambda>p. has_title pt p \<and> has_type ty p) panels of
        [p] \<Rightarrow> Inr p
      | _ \<Rightarrow> Inl AssertionError)"
proof -
  from dashboard_rows_len [OF assms(1)] obtain n where "py_len layout = Inr (Suc n)" ..
  with assms show ?thesis
    by (simp add: panel_of_layout_eq found_rows_total found_panels_total
        split: list.splits)
qed

lemma panel_matches_type_missing:
  "is_dict p \<Longrightarrow> py_getitem p ''title'' = Inr (PStr pt) \<Longrightarrow>
   py_getitem p ''type'' = Inl KeyError \<Longrightarrow> panel_matches_type pt ty p = Inl KeyError"
  by (cases p) (auto simp: panel_matches_type_def key_mem_iff split: option.splits)

lemma filter_raising_key_error:
  assumes "t \<noteq> []"
  shows "list_all is_dict panels \<Longrightarrow> \<not> list_all (panel_ok pt (Some t)) panels \<Longrightarrow>
     filter_raising (panel_matches_type pt t) panels = Inl KeyError"
proof (induction panels)
  case Nil
  then show ?case by simp
next
  case (Cons p ps)
  from Cons.prems(1) have d: "is_dict p" and ds: "list_all is_dict ps" by simp_all
  show ?case
  proof (cases "panel_ok pt (Some t) p")
    case True
    with d assms have "py_getitem p ''title'' \<noteq> Inr (PStr pt) \<or>
        py_getitem p ''type'' \<noteq> Inl KeyError"
      by (simp add: panel_ok_def)
    from panel_matches_type_dict [OF d this, of t]
    obtain b where b: "panel_matches_type pt t p = Inr b" by simp
    from True Cons.prems(2) have "\<not> list_all (panel_ok pt (Some t)) ps" by simp
    from Cons.IH [OF ds this] b show ?thesis by simp
  next
    case False
    with d assms have "py_getitem p ''title'' = Inr (PStr pt)"
      and "py_getitem p ''type'' = Inl KeyError"
      by (simp_all add: panel_ok_def)
    from panel_matches_type_missing [OF d this, of t] show ?thesis by simp
  qed
qed

lemma found_panels_key_error:
  assumes "list_all is_dict panels" and "\<not> list_all (panel_ok pt ty) panels"
  shows "found_panels pt ty panels = Inl KeyError"
proof (cases ty)
  case None
  with assms show ?thesis by (simp add: panel_ok_def list_all_iff)
next
  case (Some t)
  show ?thesis
  proof (cases "t = []")
    case True
    with Some assms show ?thesis by (simp add: panel_ok_def list_all_iff)
  next
    case False
    from filter_raising_key_error [OF False assms(1), of pt] assms(2) Some False
    show ?thesis by (simp add: found_panels_def)
  qed
qed

lemma panel_of_layout_key_error:
  assumes "dashboard_rows layout = Inr rows" and "list_all is_dict rows"
    and "filter (has_title rt) rows = [row]"
    and "row_panels row = Inr panels" and "list_all is_dict panels"
    and "\<not> list_all (panel_ok pt ty) panels"
  shows "panel_of_layout pt rt ty layout = Inl KeyError"
proof -
  from dashboard_rows_len [OF assms(1)] obtain n where "py_len layout = Inr (Suc n)" ..
  with assms(1-4) found_panels_key_error [OF assms(5,6)] show ?thesis
    by (simp add: panel_of_layout_eq found_rows_total)
qed

lemma panel_of_layout_raises:
  assumes "\<not> (\<exists>rows row panels panel.
     dashboard_rows layout = Inr rows \<and> filter (has_title rt) rows = [row] \<and>
     row_panels row = Inr panels \<and>
     filter (\<lambda>p. has_title pt p \<and> has_type ty p) panels = [panel])"
  shows "\<exists>e. panel_of_layout pt rt ty layout = Inl e"
proof (cases "panel_of_layout pt rt ty layout")
  case (Inl e)
  then show ?thesis by simp
next
  case (Inr panel)
  from panel_of_layout_Inr [OF Inr] assms show ?thesis by blast
qed

lemma get_panel_fst:
  "fst (get_dashboard self dashboard log) = Inr layout \<Longrightarrow>
   fst (get_panel self pt rt dashboard ty log) = panel_of_layout pt rt ty layout"
  by (cases "get_dashboard self dashboard log") (simp add: get_panel_def)

text \<open>
  Claim C1, as amended. \<^verbatim>\<open>get_panel\<close> returns a panel only when exactly one row of
  \<^verbatim>\<open>layout["dashboard"]["rows"]\<close> has a \<^verbatim>\<open>title\<close> equal to the row title and exactly one
  panel of that row has a \<^verbatim>\<open>title\<close> equal to the panel title and, when a non-empty panel
  type is given, a \<^verbatim>\<open>type\<close> equal to it; in every other case it raises an exception and
  returns nothing. The exception is an \<^verbatim>\<open>AssertionError\<close> on an empty layout; on zero
  or several matching rows when the rows are JSON objects; and on zero or several matching
  panels when moreover the panels of the matching row are JSON objects of which, when a
  type is asked for, those with the title asked for have a \<^verbatim>\<open>type\<close> key. Under the same
  conditions it returns the panel when there is exactly one. The exception is a
  \<^verbatim>\<open>KeyError\<close> when the rows are JSON objects, exactly one of them matches, its panels
  are JSON objects, a type is asked for and a panel with the title asked for has no
  \<^verbatim>\<open>type\<close> key.
\<close>

theorem get_panel_returns_or_asserts:
  assumes "fst (get_dashboard self dashboard log) = Inr layout"
  shows
    "(fst (get_panel self pt rt dashboard ty log) = Inr panel \<longrightarrow>
        (\<exists>rows row panels.
           dashboard_rows layout = Inr rows \<and> filter (has_title rt) rows = [row] \<and>
           row_panels row = Inr panels \<and>
           filter (\<lambda>p. has_title pt p \<and> has_type ty p) panels = [panel])) \<and>
     (py_len layout = Inr 0 \<longrightarrow>
        fst (get_panel self pt rt dashboard ty log) = Inl AssertionError) \<and>
     (\<forall>rows. dashboard_rows layout = Inr rows \<and> list_all is_dict rows \<and>
          length (filter (has_title rt) rows) \<noteq> 1 \<longrightarrow>
        fst (get_panel self pt rt dashboard ty log) = Inl AssertionError) \<and>
     (\<forall>rows row panels.
        dashboard_rows layout = Inr rows \<and> list_all is_dict rows \<and>
        filter (has_title rt) rows = [row] \<and> row_panels row = Inr panels \<and>
        list_all (panel_ok pt ty) panels \<longrightarrow>
        fst (get_panel self pt rt dashboard ty log) =
          (case filter (\<lambda>p. has_title pt p \<and> has_type ty p) panels of
             [p] \<Rightarrow> Inr p
           | _ \<Rightarrow> Inl AssertionError)) \<and>
     (\<forall>rows row panels.
        dashboard_rows layout = Inr rows \<and> list_all is_dict rows \<and>
        filter (has_title rt) rows = [row] \<and> row_panels row = Inr panels \<and>
        list_all is_dict panels \<and> \<not> list_all (panel_ok pt ty) panels \<longrightarrow>
        fst (get_panel self pt rt dashboard ty log) = Inl KeyError) \<and>
     (\<not> (\<exists>rows row panels found.
           dashboard_rows layout = Inr rows \<and> filter (has_title rt) rows = [row] \<and>
           row_panels row = Inr panels \<and>
           filter (\<lambda>p. has_title pt p \<and> has_type ty p) panels = [found]) \<longrightarrow>
        (\<exists>e. fst (get_panel self pt rt dashboard ty log) = Inl e))"
  unfolding get_panel_fst [OF assms]
proof (intro conjI impI allI)
  assume "panel_of_layout pt rt ty layout = Inr panel"
  then show "\<exists>rows row panels.
     dashboard_rows layout = Inr rows \<and> filter (has_title rt) rows = [row] \<and>
     row_panels row = Inr panels \<and>
     filter (\<lambda>p. has_title pt p \<and> has_type ty p) panels = [panel]"
    by (rule panel_of_layout_Inr)
next
  assume "py_len layout = Inr 0"
  then show "panel_of_layout pt rt ty layout = Inl AssertionError"
    by (rule panel_of_layout_empty)
next
  fix rows
  assume "dashboard_rows layout = Inr rows \<and> list_all is_dict rows \<and>
    length (filter (has_title rt) rows) \<noteq> 1"
  then show "panel_of_layout pt rt ty layout = Inl AssertionError"
    using panel_of_layout_rows by blast
next
  fix rows row panels
  assume "dashboard_rows layout = Inr rows \<and> list_all is_dict rows \<and>
    filter (has_title rt) rows = [row] \<and> row_panels row = Inr panels \<and>
    list_all (panel_ok pt ty) panels"
  then have "dashboard_rows layout = Inr rows" "list_all is_dict rows"
    "filter (has_title rt) rows = [row]" "row_panels row = Inr panels"
    "list_all (panel_ok pt ty) panels" by simp_all
  then show "panel_of_layout pt rt ty layout =
     (case filter (\<lambda>p. has_title pt p \<and> has_type ty p) panels of
        [p] \<Rightarrow> Inr p
      | _ \<Rightarrow> Inl AssertionError)"
    by (rule panel_of_layout_panels)
next
  fix rows row panels
  assume "dashboard_rows layout = Inr rows \<and> list_all is_dict rows \<and>
    filter (has_title rt) rows = [row] \<and> row_panels row = Inr panels \<and>
    list_all is_dict panels \<and> \<not> list_all (panel_ok pt ty) panels"
  then have "dashboard_rows layout = Inr rows" "list_all is_dict rows"
    "filter (has_title rt) rows = [row]" "row_panels row = Inr panels"
    "list_all is_dict panels" "\<not> list_all (panel_ok pt ty) panels" by simp_all
  then show "panel_of_layout pt rt ty layout = Inl KeyError"
    by (rule panel_of_layout_key_error)
next
  assume "\<not> (\<exists>rows row panels found.
     dashboard_rows layout = Inr rows \<and> filter (has_title rt) rows = [row] \<and>
     row_panels row = Inr panels \<and>
     filter (\<lambda>p. has_title pt p \<and> has_type ty p) panels = [found])"
  then show "\<exists>e. panel_of_layout pt rt ty layout = Inl e"
    by (rule panel_of_layout_raises)
qed

theorem get_panel_returns_or_asserts_witness:
  "fst (get_dashboard example_api ''cluster-dashboard'' []) = Inr example_layout \<and>
   dashboard_rows example_layout = Inr example_rows \<and>
   list_all is_dict example_rows \<and>
   filter (has_title ''CPU'') example_rows = [example_rows ! 1] \<and>
   row_panels (example_rows ! 1) =
     Inr [example_panel, PDict [(PStr ''title'', PStr ''Memory''), (PStr ''type'', PStr ''graph'')]] \<and>
   list_all (panel_ok ''CPU Utilization'' (Some ''graph''))
     [example_panel, PDict [(PStr ''title'', PStr ''Memory''), (PStr ''type'', PStr ''graph'')]] \<and>
   fst (get_panel example_api ''CPU Utilization'' ''CPU'' ''cluster-dashboard'' (Some ''graph'') [])
     = Inr example_panel \<and>
   length (filter (has_title ''Disk'') example_rows) \<noteq> 1 \<and>
   fst (get_panel example_api ''CPU Utilization'' ''Disk'' ''cluster-dashboard'' None [])
     = Inl AssertionError \<and>
   fst (get_dashboard typeless_api ''hosts'' []) = Inr typeless_layout \<and>
   dashboard_rows typeless_layout = Inr [typeless_row] \<and>
   list_all is_dict [typeless_row] \<and>
   filter (has_title ''CPU'') [typeless_row] = [typeless_row] \<and>
   row_panels typeless_row = Inr typeless_panels \<and>
   list_all is_dict typeless_panels \<and>
   \<not> list_all (panel_ok ''Memory'' (Some ''graph'')) typeless_panels \<and>
   fst (get_panel typeless_api ''Memory'' ''CPU'' ''hosts'' (Some ''graph'') []) = Inl KeyError \<and>
   (\<exists>e. fst (get_panel typeless_api ''Memory'' ''Disk'' ''hosts'' None []) = Inl e)"
proof -
  let ?panels =
    "[example_panel, PDict [(PStr ''title'', PStr ''Memory''), (PStr ''type'', PStr ''graph'')]]"
  have h1: "fst (get_dashboard example_api ''cluster-dashboard'' []) = Inr example_layout"
    by (simp add: get_dashboard_def http_get_def checked_json_def example_api_def Let_def)
  have h2: "dashboard_rows example_layout = Inr example_rows"
    by (simp add: dashboard_rows_def example_layout_def)
  have h3: "list_all is_dict example_rows"
    by (simp add: example_rows_def)
  have h4: "filter (has_title ''CPU'') example_rows = [example_rows ! 1]"
    by (simp add: example_rows_def has_title_def)
  have h5: "row_panels (example_rows ! 1) = Inr ?panels"
    by (simp add: example_rows_def row_panels_def)
  have h6: "list_all (panel_ok ''CPU Utilization'' (Some ''graph'')) ?panels"
    by (simp add: panel_ok_def example_panel_def)
  have f: "filter (\<lambda>p. has_title ''CPU Utilization'' p \<and> has_type (Some ''graph'') p) ?panels
      = [example_panel]"
    by (simp add: has_title_def has_type_def example_panel_def)
  have h7: "length (filter (has_title ''Disk'') example_rows) \<noteq> 1"
    by (simp add: example_rows_def has_title_def)
  have g1: "fst (get_dashboard typeless_api ''hosts'' []) = Inr typeless_layout"
    by (simp add: get_dashboard_def http_get_def checked_json_def typeless_api_def Let_def)
  have g2: "dashboard_rows typeless_layout = Inr [typeless_row]"
    by (simp add: dashboard_rows_def typeless_layout_def)
  have g3: "list_all is_dict [typeless_row]"
    by (simp add: typeless_row_def)
  have g4: "filter (has_title ''CPU'') [typeless_row] = [typeless_row]"
    by (simp add: typeless_row_def has_title_def)
  have g5: "row_panels typeless_row = Inr typeless_panels"
    by (simp add: typeless_row_def row_panels_def)
  have g6: "list_all is_dict typeless_panels"
    by (simp add: typeless_panels_def)
  have g7: "\<not> list_all (panel_ok ''Memory'' (Some ''graph'')) typeless_panels"
    by (simp add: typeless_panels_def panel_ok_def)
  have g8: "\<not> (\<exists>rows row panels found.
      dashboard_rows typeless_layout = Inr rows \<and> filter (has_title ''Disk'') rows = [row] \<and>
      row_panels row = Inr panels \<and>
      filter (\<lambda>p. has_title ''Memory'' p \<and> has_type None p) panels = [found])"
    by (simp add: g2 typeless_row_def has_title_def)
  note t1 = get_panel_returns_or_asserts [OF h1, of "''CPU Utilization''" "''CPU''"
      "Some ''graph''" example_panel]
  note t2 = get_panel_returns_or_asserts [OF h1, of "''CPU Utilization''" "''Disk''"
      None example_panel]
  note t3 = get_panel_returns_or_asserts [OF g1, of "''Memory''" "''CPU''"
      "Some ''graph''" example_panel]
  note t4 = get_panel_returns_or_asserts [OF g1, of "''Memory''" "''Disk''"
      None example_panel]
  from t1 [THEN conjunct2, THEN conjunct2, THEN conjunct2, THEN conjunct1, rule_format,
      OF conjI [OF h2 conjI [OF h3 conjI [OF h4 conjI [OF h5 h6]]]], unfolded f]
  have c1: "fst (get_panel example_api ''CPU Utilization'' ''CPU'' ''cluster-dashboard''
      (Some ''graph'') []) = Inr example_panel"
    by simp
  from t2 [THEN conjunct2, THEN conjunct2, THEN conjunct1, rule_format,
      OF conjI [OF h2 conjI [OF h3 h7]]]
  have c2: "fst (get_panel example_api ''CPU Utilization'' ''Disk'' ''cluster-dashboard''
      None []) = Inl AssertionError" .
  from t3 [THEN conjunct2, THEN conjunct2, THEN conjunct2, THEN conjunct2, THEN conjunct1,
      rule_format,
      OF conjI [OF g2 conjI [OF g3 conjI [OF g4 conjI [OF g5 conjI [OF g6 g7]]]]]]
  have c3: "fst (get_panel typeless_api ''Memory'' ''CPU'' ''hosts'' (Some ''graph'') [])
      = Inl KeyError" .
  from t4 [THEN conjunct2, THEN conjunct2, THEN conjunct2, THEN conjunct2, THEN conjunct2,
      rule_format, OF g8]
  have c4: "\<exists>e. fst (get_panel typeless_api ''Memory'' ''Disk'' ''hosts'' None []) = Inl e" .
  show ?thesis by (intro conjI h1 h2 h3 h4 h5 h6 c1 h7 c2 g1 g2 g3 g4 g5 g6 g7 c3 c4)
qed

text \<open>The claim as it was stated fails: in the row \<^verbatim>\<open>CPU\<close> of the dashboard below no panel
  has the title \<^verbatim>\<open>Memory\<close> and the type \<^verbatim>\<open>singlestat\<close>, and \<^verbatim>\<open>get_panel\<close> raises
  \<^verbatim>\<open>KeyError\<close>, not \<^verbatim>\<open>AssertionError\<close>.\<close>

theorem get_panel_not_assertion_counterexample:
  "fst (get_dashboard typeless_api ''hosts'' []) = Inr typeless_layout \<and>
   dashboard_rows typeless_layout = Inr [typeless_row] \<and>
   filter (has_title ''CPU'') [typeless_row] = [typeless_row] \<and>
   row_panels typeless_row = Inr typeless_panels \<and>
   filter (\<lambda>p. has_title ''Memory'' p \<and> has_type (Some ''singlestat'') p) typeless_panels = [] \<and>
   fst (get_panel typeless_api ''Memory'' ''CPU'' ''hosts'' (Some ''singlestat'') [])
     = Inl KeyError \<and>
   fst (get_panel typeless_api ''Memory'' ''CPU'' ''hosts'' (Some ''singlestat'') [])
     \<noteq> Inl AssertionError"
  by (simp add: get_dashboard_def http_get_def checked_json_def typeless_api_def
      typeless_layout_def typeless_row_def typeless_panels_def dashboard_rows_def
      row_panels_def has_title_def has_type_def get_panel_def panel_of_layout_def
      py_assert_def row_matches_def found_panels_def panel_matches_type_def Let_def)

section \<open>C3: the equality check of compare_structure\<close>

lemma py_eq_refl_hashable: "hashable k \<Longrightarrow> py_eq k k"
  by (cases k) auto

lemma dict_append_at_update:
  "py_eq k k \<Longrightarrow>
   dict_append_at (dict_update sg k (PList acc)) k x = Inr (dict_update sg k (PList (acc @ [x])))"
  by (induction sg) auto

lemma dict_append_update:
  "hashable k \<Longrightarrow>
   dict_append (dict_update sg k (PList acc)) k x = Inr (dict_update sg k (PList (acc @ [x])))"
  by (simp add: dict_append_def dict_append_at_update py_eq_refl_hashable)

lemma panels_loop_untitled:
  "\<not> titled panel \<Longrightarrow> \<exists>e. panels_loop sg key (panel # rest) = Inl e"
  by (cases "py_getitem panel ''title''") (simp_all add: titled_def)

lemma panels_loop_titled:
  assumes "titled panel" and "hashable key"
  shows "panels_loop (dict_update sg key (PList acc)) key (panel # rest) =
     panels_loop (dict_update sg key (PList (acc @ List.map_filter spec_panel_name [panel])))
       key rest"
proof -
  from assms(1) obtain title where t: "py_getitem panel ''title'' = Inr title"
    by (cases "py_getitem panel ''title''") (simp_all add: titled_def)
  then obtain kvs where p: "panel = PDict kvs" by (cases panel) simp_all
  from t p have g: "py_get panel ''title'' = Inr title"
    by (simp split: option.splits)
  show ?thesis
  proof (cases "truthy title")
    case True
    with t g assms(2) show ?thesis
      by (simp add: dict_append_update spec_panel_name_def List.map_filter_simps)
  next
    case False
    show ?thesis
    proof (cases "map_of kvs (PStr ''displayName'')")
      case None
      with False t g p assms(2) show ?thesis
        by (simp add: spec_panel_name_def List.map_filter_simps key_mem_iff)
    next
      case (Some name)
      with False t g p assms(2) show ?thesis
        by (simp add: dict_append_update spec_panel_name_def List.map_filter_simps
            key_mem_iff)
    qed
  qed
qed

lemma panels_loop_iff:
  assumes "hashable key"
  shows "panels_loop (dict_update sg key (PList acc)) key panels = Inr sg' \<longleftrightarrow>
     list_all titled panels \<and>
     sg' = dict_update sg key (PList (acc @ List.map_filter spec_panel_name panels))"
proof (induction panels arbitrary: acc)
  case Nil
  show ?case by (auto simp: List.map_filter_simps)
next
  case (Cons p ps)
  show ?case
  proof (cases "titled p")
    case False
    with panels_loop_untitled [OF False, of "dict_update sg key (PList acc)" key ps]
    show ?thesis by auto
  next
    case True
    from Cons [of "acc @ List.map_filter spec_panel_name [p]"] True show ?thesis
      by (simp add: panels_loop_titled [OF True assms] List.map_filter_simps
          split: option.splits del: panels_loop.simps)
  qed
qed

lemma panels_loop_total:
  "hashable key \<Longrightarrow> list_all titled panels \<Longrightarrow>
   panels_loop (dict_update sg key (PList acc)) key panels =
     Inr (dict_update sg key (PList (acc @ List.map_filter spec_panel_name panels)))"
  by (simp add: panels_loop_iff)

lemma rows_loop_Cons:
  "rows_loop sg (row # rest) =
     and_then (py_getitem row ''title'') (\<lambda>key.
       if hashable key then
         and_then (row_panels row) (\<lambda>panels.
         and_then (panels_loop (dict_update sg key (PList [])) key panels) (\<lambda>sg.
         rows_loop sg rest))
       else Inl TypeError)"
  by (simp add: dict_setitem_def row_panels_def and_then_def split: sum.splits)

lemma rows_loop_iff:
  "rows_loop sg rows = Inr sg' \<longleftrightarrow>
     list_all row_complete rows \<and>
     sg' = fold (\<lambda>row mapping.
             dict_update mapping (spec_row_title row) (PList (spec_row_names row))) rows sg"
proof (induction rows arbitrary: sg)
  case Nil
  show ?case by auto
next
  case (Cons row rest)
  show ?case
  proof (cases "py_getitem row ''title''")
    case (Inl e)
    then show ?thesis by (simp add: rows_loop_Cons row_complete_def del: rows_loop.simps)
  next
    case (Inr key)
    show ?thesis
    proof (cases "hashable key")
      case False
      with Inr show ?thesis by (simp add: rows_loop_Cons row_complete_def del: rows_loop.simps)
    next
      case True
      show ?thesis
      proof (cases "row_panels row")
        case (Inl e)
        with Inr True show ?thesis
          by (simp add: rows_loop_Cons row_complete_def del: rows_loop.simps)
      next
        case panels: (Inr panels)
        show ?thesis
        proof (cases "panels_loop (dict_update sg key (PList [])) key panels")
          case (Inl e)
          with panels_loop_total [OF True, of panels sg "[]"]
          have "\<not> list_all titled panels" by auto
          with Inl Inr True panels show ?thesis
            by (simp add: rows_loop_Cons row_complete_def del: rows_loop.simps)
        next
          case sg2: (Inr sg2)
          with panels_loop_iff [OF True, of sg "[]" panels sg2]
          have t: "list_all titled panels"
            and e: "sg2 = dict_update sg key (PList (List.map_filter spec_panel_name panels))"
            by simp_all
          have rc: "row_complete row"
            using Inr True panels t by (simp add: row_complete_def)
          have st: "dict_update sg (spec_row_title row) (PList (spec_row_names row)) = sg2"
            using Inr panels e by (simp add: spec_row_title_def spec_row_names_def)
          have "rows_loop sg (row # rest) = rows_loop sg2 rest"
            using Inr True panels sg2 by (simp add: rows_loop_Cons del: rows_loop.simps)
          with Cons [of sg2] rc st show ?thesis by simp
        qed
      qed
    qed
  qed
qed

lemma rows_loop_spec:
  "rows_loop [] rows = Inr sg \<longleftrightarrow> list_all row_complete rows \<and> sg = spec_structure rows"
  by (simp add: rows_loop_iff spec_structure_def)

lemma rows_loop_total:
  "list_all row_complete rows \<Longrightarrow> rows_loop [] rows = Inr (spec_structure rows)"
  by (simp add: rows_loop_spec)

lemma compare_layout_eq:
  "compare_layout self structure layout =
     (case py_len layout of
        Inl e \<Rightarrow> (Some e, [])
      | Inr n \<Rightarrow>
          (case dashboard_rows layout of
             Inl e \<Rightarrow> (Some e, [0 < n])
           | Inr rows \<Rightarrow>
               (case rows_loop [] rows of
                  Inl e \<Rightarrow> (Some e, [0 < n])
                | Inr sg \<Rightarrow>
                    (case diff_message self structure (PDict sg) of
                       Some e \<Rightarrow> (Some e, [0 < n])
                     | None \<Rightarrow> (None, [0 < n, py_eq structure (PDict sg)])))))"
  by (simp add: compare_layout_def dashboard_rows_def and_then_def
      split: sum.splits option.splits)

lemma compare_layout_reaches:
  "compare_layout self structure layout = (None, checks) \<longleftrightarrow>
     (\<exists>rows. dashboard_rows layout = Inr rows \<and> list_all row_complete rows \<and>
        diff_message self structure (PDict (spec_structure rows)) = None \<and>
        checks = [True, py_eq structure (PDict (spec_structure rows))])"
proof (cases "dashboard_rows layout")
  case (Inl e)
  then show ?thesis by (simp add: compare_layout_eq split: sum.splits)
next
  case (Inr rows)
  from dashboard_rows_len [OF Inr] obtain n where n: "py_len layout = Inr (Suc n)" ..
  show ?thesis
  proof (cases "rows_loop [] rows")
    case (Inl e)
    with rows_loop_total [of rows] have "\<not> list_all row_complete rows" by auto
    with Inl Inr n show ?thesis by (simp add: compare_layout_eq)
  next
    case sg: (Inr sg)
    then have "list_all row_complete rows" and "sg = spec_structure rows"
      by (simp_all add: rows_loop_spec)
    with sg Inr n show ?thesis
      by (auto simp add: compare_layout_eq split: option.splits)
  qed
qed

lemma compare_layout_incomplete:
  assumes "dashboard_rows layout = Inr rows" and "\<not> list_all row_complete rows"
  shows "\<exists>e. compare_layout self structure layout = (Some e, [True])"
proof -
  from dashboard_rows_len [OF assms(1)] obtain n where n: "py_len layout = Inr (Suc n)" ..
  from assms(2) obtain e where "rows_loop [] rows = Inl e"
    by (cases "rows_loop [] rows") (simp_all add: rows_loop_spec)
  with assms(1) n show ?thesis by (simp add: compare_layout_eq)
qed

lemma compare_layout_diff_raises:
  assumes "dashboard_rows layout = Inr rows" and "list_all row_complete rows"
    and "diff_message self structure (PDict (spec_structure rows)) = Some e"
  shows "compare_layout self structure layout = (Some e, [True])"
proof -
  from dashboard_rows_len [OF assms(1)] obtain n where n: "py_len layout = Inr (Suc n)" ..
  from assms(2) have "rows_loop [] rows = Inr (spec_structure rows)"
    by (simp add: rows_loop_spec)
  with assms n show ?thesis by (simp add: compare_layout_eq)
qed

lemma compare_structure_fst:
  "fst (get_dashboard self slug log) = Inr layout \<Longrightarrow>
   fst (compare_structure self structure slug log) = compare_layout self structure layout"
  by (cases "get_dashboard self slug log") (simp add: compare_structure_def)


text \<open>
  Claim C3, as amended. \<^verbatim>\<open>compare_structure\<close> reaches its equality check exactly when
  the dashboard has rows under \<^verbatim>\<open>layout["dashboard"]["rows"]\<close>, every row has a hashable
  \<^verbatim>\<open>title\<close> and \<^verbatim>\<open>panels\<close> each of which has a \<^verbatim>\<open>title\<close> key, and building the debug
  messages raises nothing. The check then passes if and only if the structure equals the
  mapping that sends the title of each row to the list, in panel order, of the titles of
  its panels where these are truthy, of the truthy \<^verbatim>\<open>displayName\<close> where the title is
  falsy, with the panels left out where the title is falsy and the \<^verbatim>\<open>displayName\<close> falsy
  or absent. When the dashboard has rows of which one is not of this shape, and when
  the rows are of this shape and building the debug messages raises, the method raises
  after its first check has passed and before the equality check.
\<close>

theorem compare_structure_equality_check:
  assumes "fst (get_dashboard self slug log) = Inr layout"
  shows
    "(fst (compare_structure self structure slug log) = (None, checks) \<longleftrightarrow>
        (\<exists>rows. dashboard_rows layout = Inr rows \<and> list_all row_complete rows \<and>
           diff_message self structure (PDict (spec_structure rows)) = None \<and>
           checks = [True, py_eq structure (PDict (spec_structure rows))])) \<and>
     (\<forall>rows. dashboard_rows layout = Inr rows \<and> \<not> list_all row_complete rows \<longrightarrow>
        (\<exists>e. fst (compare_structure self structure slug log) = (Some e, [True]))) \<and>
     (\<forall>rows e. dashboard_rows layout = Inr rows \<and> list_all row_complete rows \<and>
          diff_message self structure (PDict (spec_structure rows)) = Some e \<longrightarrow>
        fst (compare_structure self structure slug log) = (Some e, [True]))"
  unfolding compare_structure_fst [OF assms]
proof (intro conjI impI allI)
  show "compare_layout self structure layout = (None, checks) \<longleftrightarrow>
     (\<exists>rows. dashboard_rows layout = Inr rows \<and> list_all row_complete rows \<and>
        diff_message self structure (PDict (spec_structure rows)) = None \<and>
        checks = [True, py_eq structure (PDict (spec_structure rows))])"
    by (rule compare_layout_reaches)
next
  fix rows
  assume "dashboard_rows layout = Inr rows \<and> \<not> list_all row_complete rows"
  then have "dashboard_rows layout = Inr rows" "\<not> list_all row_complete rows" by simp_all
  then show "\<exists>e. compare_layout self structure layout = (Some e, [True])"
    by (rule compare_layout_incomplete)
next
  fix rows e
  assume "dashboard_rows layout = Inr rows \<and> list_all row_complete rows \<and>
    diff_message self structure (PDict (spec_structure rows)) = Some e"
  then have "dashboard_rows layout = Inr rows" "list_all row_complete rows"
    "diff_message self structure (PDict (spec_structure rows)) = Some e" by simp_all
  then show "compare_layout self structure layout = (Some e, [True])"
    by (rule compare_layout_diff_raises)
qed

theorem compare_structure_equality_check_witness:
  "fst (get_dashboard example_api ''cluster-dashboard'' []) = Inr example_layout \<and>
   dashboard_rows example_layout = Inr example_rows \<and>
   list_all row_complete example_rows \<and>
   spec_structure example_rows =
     [(PStr ''Header'', PList [PStr ''Hosts'', PStr ''Health'']),
      (PStr ''CPU'', PList [PStr ''CPU Utilization'', PStr ''Memory''])] \<and>
   diff_message example_api example_structure (PDict (spec_structure example_rows)) = None \<and>
   py_eq example_structure (PDict (spec_structure example_rows)) \<and>
   fst (compare_structure example_api example_structure ''cluster-dashboard'' [])
     = (None, [True, True]) \<and>
   fst (get_dashboard untitled_api ''hosts'' []) = Inr untitled_layout \<and>
   dashboard_rows untitled_layout = Inr untitled_rows \<and>
   \<not> list_all row_complete untitled_rows \<and>
   (\<exists>e. fst (compare_structure untitled_api example_structure ''hosts'' []) = (Some e, [True])) \<and>
   fst (get_dashboard recursing_api ''cluster-dashboard'' []) = Inr example_layout \<and>
   diff_message recursing_api example_structure (PDict (spec_structure example_rows))
     = Some RecursionError \<and>
   fst (compare_structure recursing_api example_structure ''cluster-dashboard'' [])
     = (Some RecursionError, [True])"
proof -
  have h1: "fst (get_dashboard example_api ''cluster-dashboard'' []) = Inr example_layout"
    by (simp add: get_dashboard_def http_get_def checked_json_def example_api_def Let_def)
  have h2: "dashboard_rows example_layout = Inr example_rows"
    by (simp add: dashboard_rows_def example_layout_def)
  have h3: "list_all row_complete example_rows"
    by (simp add: example_rows_def row_complete_def row_panels_def titled_def
        example_panel_def)
  have h4: "spec_structure example_rows =
     [(PStr ''Header'', PList [PStr ''Hosts'', PStr ''Health'']),
      (PStr ''CPU'', PList [PStr ''CPU Utilization'', PStr ''Memory''])]"
    by (simp add: spec_structure_def example_rows_def spec_row_title_def spec_row_names_def
        row_panels_def spec_panel_name_def example_panel_def List.map_filter_simps)
  have h5: "diff_message example_api example_structure (PDict (spec_structure example_rows))
      = None"
    by (simp add: example_api_def)
  have h6: "py_eq example_structure (PDict (spec_structure example_rows))"
    unfolding h4 by (simp add: example_structure_def)
  have g1: "fst (get_dashboard untitled_api ''hosts'' []) = Inr untitled_layout"
    by (simp add: get_dashboard_def http_get_def checked_json_def untitled_api_def Let_def)
  have g2: "dashboard_rows untitled_layout = Inr untitled_rows"
    by (simp add: dashboard_rows_def untitled_layout_def)
  have g3: "\<not> list_all row_complete untitled_rows"
    by (simp add: untitled_rows_def row_complete_def row_panels_def titled_def)
  have k1: "fst (get_dashboard recursing_api ''cluster-dashboard'' []) = Inr example_layout"
    by (simp add: get_dashboard_def http_get_def checked_json_def example_api_def
        recursing_api_def Let_def)
  have k2: "diff_message recursing_api example_structure (PDict (spec_structure example_rows))
      = Some RecursionError"
    by (simp add: recursing_api_def)
  note t1 = compare_structure_equality_check [OF h1, of example_structure "[True, True]"]
  note t3 = compare_structure_equality_check [OF k1, of example_structure "[]"]
  note t2 = compare_structure_equality_check [OF g1, of example_structure "[]"]
  have "\<exists>rows. dashboard_rows example_layout = Inr rows \<and> list_all row_complete rows \<and>
      diff_message example_api example_structure (PDict (spec_structure rows)) = None \<and>
      [True, True] = [True, py_eq example_structure (PDict (spec_structure rows))]"
    using h2 h3 h5 h6 by (intro exI [of _ example_rows]) simp
  with t1 [THEN conjunct1]
  have c1: "fst (compare_structure example_api example_structure ''cluster-dashboard'' [])
      = (None, [True, True])"
    by (rule iffD2)
  from t2 [THEN conjunct2, THEN conjunct1, rule_format, OF conjI [OF g2 g3]]
  have c2: "\<exists>e. fst (compare_structure untitled_api example_structure ''hosts'' [])
      = (Some e, [True])" .
  from t3 [THEN conjunct2, THEN conjunct2, rule_format, OF conjI [OF h2 conjI [OF h3 k2]]]
  have c3: "fst (compare_structure recursing_api example_structure ''cluster-dashboard'' [])
      = (Some RecursionError, [True])" .
  show ?thesis by (intro conjI h1 h2 h3 h4 h5 h6 c1 g1 g2 g3 c2 k1 k2 c3)
qed

text \<open>The claim as it was stated fails: the second panel of the dashboard below has
  neither a \<^verbatim>\<open>title\<close> nor a \<^verbatim>\<open>displayName\<close>, the structure equals the mapping that
  leaves this panel out, and \<^verbatim>\<open>compare_structure\<close> raises \<^verbatim>\<open>KeyError\<close> before it makes
  the equality check.\<close>

theorem compare_structure_untitled_counterexample:
  "fst (get_dashboard untitled_api ''hosts'' []) = Inr untitled_layout \<and>
   dashboard_rows untitled_layout = Inr untitled_rows \<and>
   spec_structure untitled_rows = [(PStr ''CPU'', PList [PStr ''Load''])] \<and>
   py_eq (PDict [(PStr ''CPU'', PList [PStr ''Load''])]) (PDict (spec_structure untitled_rows)) \<and>
   fst (compare_structure untitled_api (PDict [(PStr ''CPU'', PList [PStr ''Load''])]) ''hosts'' [])
     = (Some KeyError, [True])"
proof -
  have g1: "fst (get_dashboard untitled_api ''hosts'' []) = Inr untitled_layout"
    by (simp add: get_dashboard_def http_get_def checked_json_def untitled_api_def Let_def)
  have g2: "dashboard_rows untitled_layout = Inr untitled_rows"
    by (simp add: dashboard_rows_def untitled_layout_def)
  have g3: "spec_structure untitled_rows = [(PStr ''CPU'', PList [PStr ''Load''])]"
    by (simp add: spec_structure_def untitled_rows_def spec_row_title_def spec_row_names_def
        row_panels_def spec_panel_name_def List.map_filter_simps)
  have g4: "py_eq (PDict [(PStr ''CPU'', PList [PStr ''Load''])])
      (PDict (spec_structure untitled_rows))"
    unfolding g3 by simp
  have g5: "fst (compare_structure untitled_api (PDict [(PStr ''CPU'', PList [PStr ''Load''])])
      ''hosts'' []) = (Some KeyError, [True])"
    by (simp add: compare_structure_def get_dashboard_def http_get_def checked_json_def
        untitled_api_def untitled_layout_def untitled_rows_def compare_layout_def
        dict_setitem_def dict_append_def Let_def)
  show ?thesis by (intro conjI g1 g2 g3 g4 g5)
qed

section \<open>C4: the requests of each operation\<close>

text \<open>
  Claim C4, as amended. \<^verbatim>\<open>get_dashboards\<close>, \<^verbatim>\<open>get_dashboard\<close>, \<^verbatim>\<open>get_panel\<close> and
  \<^verbatim>\<open>compare_structure\<close> each issue exactly one GET, the last two through
  \<^verbatim>\<open>get_dashboard\<close>; \<^verbatim>\<open>get_panel_chart_targets\<close> issues none: it works on the panel it
  is given.
\<close>

theorem get_requests_of_each_operation:
  "snd (get_dashboards self log) = log @ [server self @ ''search''] \<and>
   snd (get_dashboard self slug log) = log @ [server self @ ''dashboards/db/'' @ slug] \<and>
   snd (get_panel self panel_title row_title slug panel_type log) =
     log @ [server self @ ''dashboards/db/'' @ slug] \<and>
   snd (compare_structure self structure slug log) =
     log @ [server self @ ''dashboards/db/'' @ slug] \<and>
   snd (get_panel_chart_targets self panel host_name cluster_identifier volume_name log) = log"
  by (simp add: get_dashboards_def get_dashboard_def get_panel_def compare_structure_def
      get_panel_chart_targets_def http_get_def Let_def)

text \<open>The claim as it was stated fails: on the example panel, with no request made
  before, \<^verbatim>\<open>get_panel_chart_targets\<close> has made no request when it returns.\<close>

theorem chart_targets_no_request_counterexample:
  "snd (get_panel_chart_targets example_api example_panel ''node1'' ''c1'' ''vol1'' []) = [] \<and>
   length (snd (get_panel_chart_targets example_api example_panel ''node1'' ''c1'' ''vol1'' []))
     \<noteq> 1"
  by (simp add: get_panel_chart_targets_def)

section \<open>C10: a panel without a type\<close>

text \<open>
  Claim C10. When a panel type is asked for, a panel that has the title asked for and no
  \<^verbatim>\<open>type\<close> key makes \<^verbatim>\<open>get_panel\<close> raise \<^verbatim>\<open>KeyError\<close>: the panel is not filtered out
  and no assertion fires. Here the dashboard has one row, of the title asked for, and the
  panel is the first of the row, whatever panels follow it.
\<close>

theorem get_panel_missing_type_key_error:
  assumes "fst (get_dashboard self dashboard log) =
      Inr (PDict [(PStr ''dashboard'', PDict [(PStr ''rows'',
        PList [PDict [(PStr ''title'', PStr row_title),
                      (PStr ''panels'',
                       PList (PDict [(PStr ''title'', PStr panel_title)] # panels))]])])])"
    and "panel_type \<noteq> []"
  shows "fst (get_panel self panel_title row_title dashboard (Some panel_type) log) =
     Inl KeyError"
  using assms
  by (cases "get_dashboard self dashboard log")
     (simp add: get_panel_def panel_of_layout_def py_assert_def row_matches_def
       found_panels_def panel_matches_type_def Let_def)

theorem get_panel_missing_type_key_error_witness:
  "fst (get_dashboard typeless_api ''hosts'' []) =
      Inr (PDict [(PStr ''dashboard'', PDict [(PStr ''rows'',
        PList [PDict [(PStr ''title'', PStr ''CPU''),
                      (PStr ''panels'',
                       PList (PDict [(PStr ''title'', PStr ''Memory'')] #
                         tl typeless_panels))]])])]) \<and>
   ''graph'' \<noteq> [] \<and>
   fst (get_panel typeless_api ''Memory'' ''CPU'' ''hosts'' (Some ''graph'') []) = Inl KeyError"
proof -
  have h1: "fst (get_dashboard typeless_api ''hosts'' []) =
      Inr (PDict [(PStr ''dashboard'', PDict [(PStr ''rows'',
        PList [PDict [(PStr ''title'', PStr ''CPU''),
                      (PStr ''panels'',
                       PList (PDict [(PStr ''title'', PStr ''Memory'')] #
                         tl typeless_panels))]])])])"
    by (simp add: get_dashboard_def http_get_def checked_json_def typeless_api_def
        typeless_layout_def typeless_row_def typeless_panels_def Let_def)
  have h2: "''graph'' \<noteq> []" by simp
  show ?thesis
    by (intro conjI h1 h2 get_panel_missing_type_key_error [OF h1 h2])
qed

section \<open>C7: one inner list for each visible target\<close>

lemma visible_targets_not_dict:
  "\<not> is_dict target \<Longrightarrow> \<exists>e. visible_targets (target # rest) = Inl e"
  by (cases target) (auto simp: and_then_def split: sum.splits)

lemma visible_targets_dict:
  "is_dict target \<Longrightarrow>
   visible_targets (target # rest) =
     (if target_visible target then
        and_then (target_template target) (\<lambda>template.
        and_then (visible_targets rest) (\<lambda>targets. Inr (template # targets)))
      else visible_targets rest)"
  by (cases target)
     (auto simp: target_visible_def target_template_def key_mem_iff split: option.splits)

lemma visible_targets_iff:
  "visible_targets ts = Inr templates \<longleftrightarrow>
     list_all is_dict ts \<and>
     map target_template (filter target_visible ts) = map Inr templates"
proof (induction ts arbitrary: templates)
  case Nil
  show ?case by auto
next
  case (Cons t ts)
  show ?case
  proof (cases "is_dict t")
    case False
    with visible_targets_not_dict [OF False, of ts] show ?thesis by auto
  next
    case True
    show ?thesis
    proof (cases "target_visible t")
      case False
      with True Cons show ?thesis by (simp add: visible_targets_dict del: visible_targets.simps)
    next
      case vis: True
      show ?thesis
      proof (cases "target_template t")
        case (Inl e)
        with True vis show ?thesis
          by (auto simp add: visible_targets_dict simp del: visible_targets.simps)
      next
        case tmpl: (Inr template)
        show ?thesis
        proof (cases "visible_targets ts")
          case (Inl e)
          with Cons [of "tl templates"] True vis tmpl show ?thesis
            by (cases templates)
              (auto simp add: visible_targets_dict simp del: visible_targets.simps)
        next
          case (Inr rest)
          with Cons [of rest] Cons [of "tl templates"] True vis tmpl show ?thesis
            by (cases templates)
              (auto simp add: visible_targets_dict simp del: visible_targets.simps)
        qed
      qed
    qed
  qed
qed

lemma output_loop_iff:
  "output_loop h c v templates = Inr outputs \<longleftrightarrow>
     map (process_target h c v) templates = map Inr outputs"
proof (induction templates arbitrary: outputs)
  case Nil
  show ?case by auto
next
  case (Cons t ts)
  show ?case
  proof (cases "process_target h c v t")
    case (Inl e)
    then show ?thesis by (cases outputs) auto
  next
    case p: (Inr out)
    show ?thesis
    proof (cases "output_loop h c v ts")
      case (Inl e)
      with Cons [of "tl outputs"] p show ?thesis by (cases outputs) auto
    next
      case (Inr outs)
      with Cons [of outs] Cons [of "tl outputs"] p show ?thesis by (cases outputs) auto
    qed
  qed
qed

lemma chart_targets_eq:
  "chart_targets panel h c v =
     and_then (panel_targets panel) (\<lambda>ts.
     and_then (visible_targets ts) (\<lambda>templates.
     and_then (output_loop h c v templates) (\<lambda>outputs.
     and_then (py_getitem panel ''title'') (\<lambda>_. Inr outputs))))"
  by (cases "py_getitem panel ''targets''") (simp_all add: chart_targets_def panel_targets_def)

lemma example_chart_targets:
  "chart_targets example_panel ''node1.example.com'' ''c1'' ''vol1'' =
     Inr [[''tendrl.clusters.c1.nodes.node1_example_com.cpu.percent-user'',
           ''tendrl.clusters.c1.nodes.node1_example_com.cpu.percent-system''],
          [''tendrl.volumes.vol1.usage''], []]"
  by code_simp

text \<open>
  Claim C7. \<^verbatim>\<open>get_panel_chart_targets\<close> returns a list exactly when the targets of the
  panel are JSON objects, every visible target has a template, every template is
  processed without an exception and the panel has a \<^verbatim>\<open>title\<close>; the list then has one
  inner list per visible target, in order, computed from the template of that target. A
  target is visible exactly when its \<^verbatim>\<open>hide\<close> key is absent or falsy, hidden targets give
  nothing, and the template is the value of \<^verbatim>\<open>targetFull\<close> when that is truthy and the
  value of \<^verbatim>\<open>target\<close> otherwise.
\<close>

theorem chart_targets_visible:
  "chart_targets panel h c v = Inr outputs \<longleftrightarrow>
     (\<exists>ts templates title.
        panel_targets panel = Inr ts \<and> list_all is_dict ts \<and>
        map target_template (filter target_visible ts) = map Inr templates \<and>
        map (process_target h c v) templates = map Inr outputs \<and>
        py_getitem panel ''title'' = Inr title)"
proof
  assume a: "chart_targets panel h c v = Inr outputs"
  obtain ts where ts: "panel_targets panel = Inr ts"
    using a by (cases "panel_targets panel") (simp_all add: chart_targets_eq)
  obtain templates where tm: "visible_targets ts = Inr templates"
    using a ts by (cases "visible_targets ts") (simp_all add: chart_targets_eq)
  obtain outs where ol: "output_loop h c v templates = Inr outs"
    using a ts tm by (cases "output_loop h c v templates") (simp_all add: chart_targets_eq)
  obtain title where ti: "py_getitem panel ''title'' = Inr title"
    using a ts tm ol by (cases "py_getitem panel ''title''") (simp_all add: chart_targets_eq)
  have "outs = outputs"
    using a ts tm ol ti by (simp add: chart_targets_eq)
  with ol have ol': "output_loop h c v templates = Inr outputs" by simp
  from tm have "list_all is_dict ts"
    and "map target_template (filter target_visible ts) = map Inr templates"
    by (simp_all add: visible_targets_iff)
  moreover from ol' have "map (process_target h c v) templates = map Inr outputs"
    by (simp add: output_loop_iff)
  ultimately show "\<exists>ts templates title.
        panel_targets panel = Inr ts \<and> list_all is_dict ts \<and>
        map target_template (filter target_visible ts) = map Inr templates \<and>
        map (process_target h c v) templates = map Inr outputs \<and>
        py_getitem panel ''title'' = Inr title"
    using ts ti by (intro exI conjI)
next
  assume "\<exists>ts templates title.
        panel_targets panel = Inr ts \<and> list_all is_dict ts \<and>
        map target_template (filter target_visible ts) = map Inr templates \<and>
        map (process_target h c v) templates = map Inr outputs \<and>
        py_getitem panel ''title'' = Inr title"
  then obtain ts templates title where ts: "panel_targets panel = Inr ts"
    and d: "list_all is_dict ts"
    and m: "map target_template (filter target_visible ts) = map Inr templates"
    and p: "map (process_target h c v) templates = map Inr outputs"
    and ti: "py_getitem panel ''title'' = Inr title"
    by (elim exE conjE)
  from d m have "visible_targets ts = Inr templates" by (simp add: visible_targets_iff)
  moreover from p have "output_loop h c v templates = Inr outputs"
    by (simp add: output_loop_iff)
  ultimately show "chart_targets panel h c v = Inr outputs"
    using ts ti by (simp add: chart_targets_eq)
qed

theorem chart_targets_visible_witness:
  "chart_targets example_panel ''node1.example.com'' ''c1'' ''vol1'' =
     Inr [[''tendrl.clusters.c1.nodes.node1_example_com.cpu.percent-user'',
           ''tendrl.clusters.c1.nodes.node1_example_com.cpu.percent-system''],
          [''tendrl.volumes.vol1.usage''], []] \<and>
   (\<exists>ts templates title.
      panel_targets example_panel = Inr ts \<and> list_all is_dict ts \<and>
      map target_template (filter target_visible ts) = map Inr templates \<and>
      map (process_target ''node1.example.com'' ''c1'' ''vol1'') templates =
        map Inr [[''tendrl.clusters.c1.nodes.node1_example_com.cpu.percent-user'',
                  ''tendrl.clusters.c1.nodes.node1_example_com.cpu.percent-system''],
                 [''tendrl.volumes.vol1.usage''], []] \<and>
      py_getitem example_panel ''title'' = Inr title)"
  by (intro conjI example_chart_targets
      iffD1 [OF chart_targets_visible example_chart_targets])

section \<open>C8: the host name loses its dots\<close>

lemma substitute_str:
  "substitute h c v (PStr s) =
     Inr (PStr (py_replace ''$host_name'' (py_replace ''.'' ''_'' h)
                 (py_replace ''$volume_name'' v (py_replace ''$cluster_id'' c s))))"
  by (simp add: substitute_def py_replace_absent)

lemma process_target_str:
  "process_target h c v (PStr s) =
     Inr (target_output (py_split '', ''
       (py_replace ''$host_name'' (py_replace ''.'' ''_'' h)
         (py_replace ''$volume_name'' v (py_replace ''$cluster_id'' c s)))))"
  by (simp add: process_target_def substitute_str)

lemma substitute_Inr:
  "substitute h c v t = Inr t' \<Longrightarrow> (\<exists>s. t = PStr s) \<or> \<not> (\<exists>s. t' = PStr s)"
  by (cases t) (auto simp: substitute_def split: if_splits)

lemma process_target_Inr:
  assumes "process_target h c v t = Inr out"
  shows "\<exists>s. t = PStr s"
proof -
  from assms obtain t' where t': "substitute h c v t = Inr t'"
    by (cases "substitute h c v t") (simp_all add: process_target_def)
  with assms obtain ps where "str_split t' '', '' = Inr ps"
    by (cases "str_split t' '', ''") (simp_all add: process_target_def)
  then have "\<exists>s. t' = PStr s" by (cases t') simp_all
  with substitute_Inr [OF t'] show ?thesis by blast
qed

lemma target_output_concat: "target_output ps = concat (map piece_targets ps)"
  by (induction ps) simp_all

lemma map_eq_map_Inr:
  "map f xs = map Inr ys \<longleftrightarrow> list_all2 (\<lambda>x y. f x = Inr y) xs ys"
proof (induction xs arbitrary: ys)
  case Nil
  show ?case by auto
next
  case (Cons x xs)
  then show ?case by (cases ys) auto
qed

text \<open>
  Claim C8. On a target string the substitution replaces every occurrence of
  \<^verbatim>\<open>$cluster_id\<close> by the cluster identifier as it is, then every occurrence of
  \<^verbatim>\<open>$volume_name\<close> by the volume name as it is, then every occurrence of \<^verbatim>\<open>$host_name\<close>
  by the host name in which every dot has become an underscore.
\<close>

theorem host_name_dots_to_underscores:
  "\<exists>s1 s2 s3.
     every_occurrence_replaced ''$cluster_id'' cluster_identifier s s1 \<and>
     every_occurrence_replaced ''$volume_name'' volume_name s1 s2 \<and>
     every_occurrence_replaced ''$host_name'' (underscored host_name) s2 s3 \<and>
     substitute host_name cluster_identifier volume_name (PStr s) = Inr (PStr s3)"
proof -
  let ?s1 = "py_replace ''$cluster_id'' cluster_identifier s"
  let ?s2 = "py_replace ''$volume_name'' volume_name ?s1"
  let ?s3 = "py_replace ''$host_name'' (underscored host_name) ?s2"
  have u: "py_replace ''.'' ''_'' host_name = underscored host_name"
    by (simp add: underscored_def py_replace_single)
  have "every_occurrence_replaced ''$cluster_id'' cluster_identifier s ?s1"
    by (rule py_replace_every) simp
  moreover have "every_occurrence_replaced ''$volume_name'' volume_name ?s1 ?s2"
    by (rule py_replace_every) simp
  moreover have "every_occurrence_replaced ''$host_name'' (underscored host_name) ?s2 ?s3"
    by (rule py_replace_every) simp
  moreover have "substitute host_name cluster_identifier volume_name (PStr s) = Inr (PStr ?s3)"
    by (simp only: substitute_str u)
  ultimately show ?thesis by (intro exI conjI)
qed

theorem host_name_dots_to_underscores_witness:
  "(\<exists>s1 s2 s3.
     every_occurrence_replaced ''$cluster_id'' ''c1''
       ''tendrl.$cluster_id.$host_name.$volume_name'' s1 \<and>
     every_occurrence_replaced ''$volume_name'' ''vol1'' s1 s2 \<and>
     every_occurrence_replaced ''$host_name'' (underscored ''node1.example.com'') s2 s3 \<and>
     substitute ''node1.example.com'' ''c1'' ''vol1''
       (PStr ''tendrl.$cluster_id.$host_name.$volume_name'') = Inr (PStr s3)) \<and>
   underscored ''node1.example.com'' = ''node1_example_com'' \<and>
   substitute ''node1.example.com'' ''c1'' ''vol1''
     (PStr ''tendrl.$cluster_id.$host_name.$volume_name'') =
     Inr (PStr ''tendrl.c1.node1_example_com.vol1'')"
proof (intro conjI)
  show "\<exists>s1 s2 s3.
     every_occurrence_replaced ''$cluster_id'' ''c1''
       ''tendrl.$cluster_id.$host_name.$volume_name'' s1 \<and>
     every_occurrence_replaced ''$volume_name'' ''vol1'' s1 s2 \<and>
     every_occurrence_replaced ''$host_name'' (underscored ''node1.example.com'') s2 s3 \<and>
     substitute ''node1.example.com'' ''c1'' ''vol1''
       (PStr ''tendrl.$cluster_id.$host_name.$volume_name'') = Inr (PStr s3)"
    by (rule host_name_dots_to_underscores)
  show "underscored ''node1.example.com'' = ''node1_example_com''"
    by (simp add: underscored_def)
  show "substitute ''node1.example.com'' ''c1'' ''vol1''
     (PStr ''tendrl.$cluster_id.$host_name.$volume_name'') =
     Inr (PStr ''tendrl.c1.node1_example_com.vol1'')"
    by code_simp
qed

section \<open>C2: substitution comes before the split\<close>

lemma process_target_split:
  assumes "process_target h c v t = Inr out"
  shows "substituted_then_split h c v t out"
proof -
  from process_target_Inr [OF assms] obtain s where s: "t = PStr s" ..
  let ?s1 = "py_replace ''$cluster_id'' c s"
  let ?s2 = "py_replace ''$volume_name'' v ?s1"
  let ?s3 = "py_replace ''$host_name'' (py_replace ''.'' ''_'' h) ?s2"
  have "every_occurrence_replaced ''$cluster_id'' c s ?s1"
    by (rule py_replace_every) simp
  moreover have "every_occurrence_replaced ''$volume_name'' v ?s1 ?s2"
    by (rule py_replace_every) simp
  moreover have "every_occurrence_replaced ''$host_name'' (py_replace ''.'' ''_'' h) ?s2 ?s3"
    by (rule py_replace_every) simp
  moreover from assms s have "out = target_output (py_split '', '' ?s3)"
    by (simp only: process_target_str sum.inject)
  ultimately show ?thesis
    unfolding substituted_then_split_def using s by (intro exI conjI)
qed

text \<open>
  Claim C2. Whenever \<^verbatim>\<open>get_panel_chart_targets\<close> returns, the template of every visible
  target is a string, and its inner list is what splitting and normalising gives on the
  string in which first every occurrence of \<^verbatim>\<open>$cluster_id\<close> has been replaced by the
  cluster identifier, then every occurrence of \<^verbatim>\<open>$volume_name\<close> by the volume name, then
  every occurrence of \<^verbatim>\<open>$host_name\<close> by a value made from the host name: the
  substitutions come before the split.
\<close>

theorem substitutions_before_split:
  assumes "chart_targets panel h c v = Inr outputs"
  shows "\<exists>ts templates.
     panel_targets panel = Inr ts \<and>
     map target_template (filter target_visible ts) = map Inr templates \<and>
     list_all2 (substituted_then_split h c v) templates outputs"
proof -
  from assms obtain ts templates where ts: "panel_targets panel = Inr ts"
    and m: "map target_template (filter target_visible ts) = map Inr templates"
    and p: "map (process_target h c v) templates = map Inr outputs"
    unfolding chart_targets_visible by (elim exE conjE)
  from p have "list_all2 (\<lambda>t out. process_target h c v t = Inr out) templates outputs"
    by (simp add: map_eq_map_Inr)
  then have "list_all2 (substituted_then_split h c v) templates outputs"
    by (rule list_all2_mono) (rule process_target_split)
  with ts m show ?thesis by (intro exI conjI)
qed

theorem substitutions_before_split_witness:
  "chart_targets example_panel ''node1.example.com'' ''c1'' ''vol1'' =
     Inr [[''tendrl.clusters.c1.nodes.node1_example_com.cpu.percent-user'',
           ''tendrl.clusters.c1.nodes.node1_example_com.cpu.percent-system''],
          [''tendrl.volumes.vol1.usage''], []] \<and>
   (\<exists>ts templates.
      panel_targets example_panel = Inr ts \<and>
      map target_template (filter target_visible ts) = map Inr templates \<and>
      list_all2 (substituted_then_split ''node1.example.com'' ''c1'' ''vol1'') templates
        [[''tendrl.clusters.c1.nodes.node1_example_com.cpu.percent-user'',
          ''tendrl.clusters.c1.nodes.node1_example_com.cpu.percent-system''],
         [''tendrl.volumes.vol1.usage''], []])"
  by (intro conjI example_chart_targets
      substitutions_before_split [OF example_chart_targets])

section \<open>C9: pieces without an options block\<close>

lemma split_options_none:
  assumes "\<not> str_contains ''.{'' t"
  shows "split_options t = (t, None)"
proof -
  from assms have "py_rfind ''.{'' t = None"
    by (simp add: str_contains_def py_rfind_None_iff)
  then show ?thesis by (simp add: split_options_def py_rsplit1_def)
qed

lemma piece_targets_plain:
  "\<not> str_contains ''.{'' (strip_call piece) \<Longrightarrow>
   piece_targets piece =
     (if prefix ''tendrl.'' (strip_call piece) then [strip_call piece] else [])"
  by (simp add: piece_targets_def split_options_none)

text \<open>
  Claim C9. The inner list of a target is the concatenation of what the pieces of the
  substituted target give, the pieces being cut at \<^verbatim>\<open>", "\<close>. A piece that, once the
  function call around it is stripped, contains no \<^verbatim>\<open>.{\<close> gives the stripped piece itself
  when that starts with \<^verbatim>\<open>tendrl.\<close> and nothing otherwise; so an inner list can be empty.
\<close>

theorem piece_without_options_block:
  assumes "process_target h c v target = Inr out"
  shows "\<exists>s. substitute h c v target = Inr (PStr s) \<and>
     out = concat (map piece_targets (py_split '', '' s)) \<and>
     (\<forall>piece\<in>set (py_split '', '' s).
        \<not> str_contains ''.{'' (strip_call piece) \<longrightarrow>
        piece_targets piece =
          (if prefix ''tendrl.'' (strip_call piece) then [strip_call piece] else []))"
proof -
  from process_target_Inr [OF assms] obtain s where s: "target = PStr s" ..
  let ?s3 = "py_replace ''$host_name'' (py_replace ''.'' ''_'' h)
     (py_replace ''$volume_name'' v (py_replace ''$cluster_id'' c s))"
  have "substitute h c v target = Inr (PStr ?s3)"
    using s by (simp only: substitute_str)
  moreover from assms s have "out = concat (map piece_targets (py_split '', '' ?s3))"
    by (simp only: process_target_str sum.inject target_output_concat)
  moreover have "\<forall>piece\<in>set (py_split '', '' ?s3).
        \<not> str_contains ''.{'' (strip_call piece) \<longrightarrow>
        piece_targets piece =
          (if prefix ''tendrl.'' (strip_call piece) then [strip_call piece] else [])"
    by (intro ballI impI) (rule piece_targets_plain)
  ultimately show ?thesis by (intro exI conjI)
qed

theorem piece_without_options_block_witness:
  "process_target ''n1'' ''c1'' ''v1'' (PStr ''alias(other.metric, tendrl.$cluster_id.load)'') =
     Inr [''tendrl.c1.load''] \<and>
   (\<exists>s. substitute ''n1'' ''c1'' ''v1'' (PStr ''alias(other.metric, tendrl.$cluster_id.load)'') =
        Inr (PStr s) \<and>
      [''tendrl.c1.load''] = concat (map piece_targets (py_split '', '' s)) \<and>
      (\<forall>piece\<in>set (py_split '', '' s).
         \<not> str_contains ''.{'' (strip_call piece) \<longrightarrow>
         piece_targets piece =
           (if prefix ''tendrl.'' (strip_call piece) then [strip_call piece] else []))) \<and>
   process_target ''n1'' ''c1'' ''v1'' (PStr ''other.metric'') = Inr []"
proof -
  have e: "process_target ''n1'' ''c1'' ''v1''
      (PStr ''alias(other.metric, tendrl.$cluster_id.load)'') = Inr [''tendrl.c1.load'']"
    by code_simp
  have e2: "process_target ''n1'' ''c1'' ''v1'' (PStr ''other.metric'') = Inr []"
    by code_simp
  show ?thesis
    by (intro conjI e e2 piece_without_options_block [OF e])
qed

end
